theory Spec2Isabelle
  imports Complex_Main "HOL-Library.AList"
begin

section \<open>JavaScript values used by the server\<close>

text \<open>
  The development embeds the BlockVerse session server of \<^verbatim>\<open>src/server.js\<close> and, in a
  later section, the connection registry of its sibling variant (the second document of
  \<^verbatim>\<open>src/unnamed/part_000\<close>).

  Conventions of the embedding.
  \<^item> A JavaScript number is a rational (\<open>num\<close>): every finite double is one, and strict
    equality of two such numbers is equality. The arithmetic the server performs on
    numbers is the spawn offset \<open>(Math.random() - 0.5) * 10\<close>, the random colour and the
    decoration coordinates of the default map. It is computed exactly here, without the
    rounding of double arithmetic: the value is the one the server computes whenever
    every intermediate result is a double (as for the draws \<open>1/2\<close> and \<open>1/4\<close> used in the
    scenarios below), and may differ from it in the last place otherwise.
  \<^item> A plain object \<open>{}\<close> is an association list in insertion order whose keys are
    distinct; \<open>obj[k] = v\<close> is \<open>AList.update\<close>, \<open>delete obj[k]\<close> is
    \<open>AList.delete\<close>, \<open>Object.keys(obj).length\<close> is the length of the list.
  \<^item> A property read \<open>obj[k]\<close> on a plain object finds own properties first and then the
    properties of \<open>Object.prototype\<close> (\<open>get_prop\<close>).
  \<^item> \<open>Math.random()\<close>, \<open>Date.now()\<close> and \<open>uuidv4()\<close> are inputs of the handler
    that calls them, one field per call site.
  \<^item> Inbound messages are records whose fields have the types of the wire interface
    (strings, numbers, a list of blocks); an optional string field is \<open>None\<close> when the
    message does not carry it.
\<close>

type_synonym num = rat

type_synonym ws = nat

datatype error = TypeError | Unmodelled

datatype 'a property = Own 'a | Inherited | Undefined

definition Object_prototype :: "string list" where
  "Object_prototype =
     [''constructor'', ''__defineGetter__'', ''__defineSetter__'', ''hasOwnProperty'',
      ''__lookupGetter__'', ''__lookupSetter__'', ''isPrototypeOf'',
      ''propertyIsEnumerable'', ''toString'', ''valueOf'', ''__proto__'',
      ''toLocaleString'']"

text \<open>
  \<open>obj[k]\<close> for a plain object: an own property, else a property inherited from
  \<open>Object.prototype\<close> (a function, or the prototype itself for \<open>__proto__\<close>: truthy, and
  without any of the fields the server reads), else \<open>undefined\<close>.
\<close>

definition get_prop :: "(string \<times> 'a) list \<Rightarrow> string \<Rightarrow> 'a property" where
  "get_prop obj k =
     (case map_of obj k of
        Some v \<Rightarrow> Own v
      | None \<Rightarrow> if k \<in> set Object_prototype then Inherited else Undefined)"

text \<open>
  The property key of a value used in \<open>obj[v]\<close>: \<open>null\<close> becomes the string \<open>null\<close>, a
  string is itself.
\<close>

definition prop_key :: "string option \<Rightarrow> string" where
  "prop_key v = (case v of None \<Rightarrow> ''null'' | Some k \<Rightarrow> k)"

text \<open>
  \<open>clients\<close> is a plain object, and \<open>clients[ws]\<close> converts the WebSocket object to a
  property key with \<open>toString\<close>, which gives the same string for every WebSocket.
\<close>

definition ws_key :: "ws \<Rightarrow> string" where
  "ws_key w = ''[object Object]''"

definition truthy :: "string option \<Rightarrow> bool" where
  "truthy v = (case v of None \<Rightarrow> False | Some str \<Rightarrow> str \<noteq> [])"

definition or_else :: "string option \<Rightarrow> string \<Rightarrow> string" where
  "or_else v d = (case v of None \<Rightarrow> d | Some str \<Rightarrow> if str = [] then d else str)"

definition String :: "string option \<Rightarrow> string" where
  "String v = (case v of None \<Rightarrow> ''undefined'' | Some str \<Rightarrow> str)"

definition slice_last :: "nat \<Rightarrow> 'a list \<Rightarrow> 'a list" where
  "slice_last n xs = drop (length xs - n) xs"

definition hex_digit :: "nat \<Rightarrow> char" where
  "hex_digit d = (if d < 16 then ''0123456789abcdef'' ! d else CHR ''?'')"

fun toString16 :: "nat \<Rightarrow> string" where
  "toString16 n = (if n < 16 then [hex_digit n] else toString16 (n div 16) @ [hex_digit (n mod 16)])"

fun toString10 :: "nat \<Rightarrow> string" where
  "toString10 n = (if n < 10 then [hex_digit n] else toString10 (n div 10) @ [hex_digit (n mod 10)])"

definition padStart :: "nat \<Rightarrow> char \<Rightarrow> string \<Rightarrow> string" where
  "padStart n c str = replicate (n - length str) c @ str"

section \<open>Data model\<close>

record clientInfo =
  info_playerId :: string
  info_roomId :: "string option"
  info_name :: string

record playerState =
  p_id :: string
  p_name :: string
  p_color :: string
  p_x :: num
  p_y :: num
  p_z :: num
  p_rotY :: num
  p_hp :: num
  p_joinedAt :: int

record block =
  b_x :: num
  b_y :: num
  b_z :: num
  b_type :: string

record chatEntry =
  m_sender :: string
  m_color :: string
  m_text :: string
  m_ts :: int

text \<open>The field \<open>scripts\<close> of a room is created empty and never read or written again.\<close>

record room =
  r_id :: string
  r_name :: string
  maxPlayers :: nat
  players :: "(string \<times> playerState) list"
  mapData :: "block list"
  chatHistory :: "chatEntry list"
  created :: int

record roomSummary =
  s_id :: string
  s_name :: string
  playerCount :: nat
  s_maxPlayers :: nat

datatype out_msg =
    Welcome string "roomSummary list"
  | RoomJoined string string string "(string \<times> playerState) list" "block list" "chatEntry list"
  | PlayerJoined playerState
  | PlayerMoved string num num num num
  | PlayerLeft string
  | Chat chatEntry
  | BlockUpdate num num num string
  | MapReload "block list"
  | ScriptOutput string string
  | ErrorReply string
  | Info string
  | Pong int

text \<open>
  \<open>ScriptOutput code name\<close> stands for the reply \<open>script_output\<close> whose lines are
  \<open>simulateLua(code, name)\<close>; the simulator has no effect on the state.
\<close>

datatype msg =
    JoinRoom string "string option" "string option"
  | Move num num num num
  | ChatText "string option"
  | PlaceBlock num num num string
  | ScriptRun string
  | SaveMap "block list"
  | Ping
  | UnknownType

text \<open>
  What \<open>JSON.parse(raw)\<close> makes of an inbound payload: it throws (\<open>Malformed\<close>), it
  returns \<open>null\<close>, or it returns a value whose \<open>type\<close> selects a case of the switch
  (\<open>UnknownType\<close> when no case matches, as for a value without a \<open>type\<close>).
\<close>

datatype payload = Malformed | JsonNull | Json msg

record env =
  rnd_spawnX :: rat
  rnd_spawnZ :: rat
  rnd_color :: rat
  now_left :: int
  now_joinedAt :: int
  now_ts :: int

text \<open>
  A socket of \<open>wss.clients\<close>: its identity, whether its \<open>readyState\<close> is \<open>OPEN\<close>, and the
  \<open>playerId\<close> of the closure of its connection handler.
\<close>

record socket =
  sock_ws :: ws
  readyOpen :: bool
  playerId :: string

record state =
  rooms :: "(string \<times> room) list"
  clients :: "(string \<times> clientInfo) list"
  wss_clients :: "socket list"
  sent :: "(ws \<times> out_msg) list"

section \<open>Room factory\<close>

definition decoTypes :: "string list" where
  "decoTypes = [''sand'', ''snow'', ''lava'', ''metal'', ''glass'', ''leaf'']"

definition deco_type :: "int \<Rightarrow> string" where
  "deco_type i = (if 0 \<le> i \<and> nat i < length decoTypes then decoTypes ! nat i else ''undefined'')"

definition mk_block :: "int \<Rightarrow> int \<Rightarrow> int \<Rightarrow> string \<Rightarrow> block" where
  "mk_block x y z t = \<lparr>b_x = of_int x, b_y = of_int y, b_z = of_int z, b_type = t\<rparr>"

definition floor_blocks :: "block list" where
  "floor_blocks = concat (map (\<lambda>x. map (\<lambda>z. mk_block x 0 z ''grass'') [-20..19]) [-20..19])"

definition platform_blocks :: "block list" where
  "platform_blocks = concat (map (\<lambda>x. map (\<lambda>z. mk_block x 1 z ''stone'') [-4..4]) [-4..4])"

definition wall_blocks :: "block list" where
  "wall_blocks =
     concat (map (\<lambda>i. [mk_block i 2 (-4) ''brick'', mk_block i 2 4 ''brick'',
                        mk_block (-4) 2 i ''brick'', mk_block 4 2 i ''brick'']) [-3..3])"

definition tower_blocks :: "block list" where
  "tower_blocks =
     concat (map (\<lambda>y. [mk_block 8 y 8 ''wood'', mk_block 9 y 8 ''wood'',
                        mk_block 8 y 9 ''wood'', mk_block 9 y 9 ''wood'']) [1..6])"

text \<open>
  The decoration loop calls \<open>Math.random()\<close> three times per block; \<open>rnd k\<close> is the result
  of the \<open>k\<close>-th call.
\<close>

definition deco_blocks :: "(nat \<Rightarrow> rat) \<Rightarrow> block list" where
  "deco_blocks rnd =
     map (\<lambda>i. mk_block \<lfloor>rnd (3 * i) * 30 - 15\<rfloor> 1 \<lfloor>rnd (3 * i + 1) * 30 - 15\<rfloor>
                 (deco_type \<lfloor>rnd (3 * i + 2) * 6\<rfloor>)) [0..<30]"

definition generateDefaultMap :: "(nat \<Rightarrow> rat) \<Rightarrow> block list" where
  "generateDefaultMap rnd =
     floor_blocks @ platform_blocks @ wall_blocks @ tower_blocks @ deco_blocks rnd"

record room_env =
  map_random :: "nat \<Rightarrow> rat"
  now_created :: int

definition createRoom :: "string \<Rightarrow> string \<Rightarrow> nat \<Rightarrow> room_env \<Rightarrow> room" where
  "createRoom rid rname maxP e =
     \<lparr>r_id = rid, r_name = rname, maxPlayers = maxP, players = [],
      mapData = generateDefaultMap (map_random e), chatHistory = [],
      created = now_created e\<rparr>"

definition seed_names :: "string list" where
  "seed_names = [''Main World'', ''PvP Arena'', ''Builder Zone'', ''Roleplay City'']"

definition seed_rooms :: "(nat \<Rightarrow> room_env) \<Rightarrow> (string \<times> room) list" where
  "seed_rooms e =
     foldl (\<lambda>rs (i, rname).
              AList.update (''room_'' @ toString10 (i + 1))
                (createRoom (''room_'' @ toString10 (i + 1)) rname 20 (e i)) rs)
       [] (enumerate 0 seed_names)"

definition initial_state :: "(nat \<Rightarrow> room_env) \<Rightarrow> state" where
  "initial_state e = \<lparr>rooms = seed_rooms e, clients = [], wss_clients = [], sent = []\<rparr>"

section \<open>Broadcast helpers\<close>

definition find_socket :: "state \<Rightarrow> ws \<Rightarrow> socket option" where
  "find_socket s w = find (\<lambda>c. sock_ws c = w) (wss_clients s)"

definition is_open :: "state \<Rightarrow> ws \<Rightarrow> bool" where
  "is_open s w = (case find_socket s w of None \<Rightarrow> False | Some c \<Rightarrow> readyOpen c)"

text \<open>\<open>info && info.roomId === roomId\<close> for the session that \<open>clients[ws]\<close> resolves to.\<close>

definition registered_in :: "state \<Rightarrow> string option \<Rightarrow> ws \<Rightarrow> bool" where
  "registered_in s roomId w =
     (case map_of (clients s) (ws_key w) of
        None \<Rightarrow> False
      | Some info \<Rightarrow> info_roomId info = roomId)"

definition recipients :: "state \<Rightarrow> string option \<Rightarrow> ws option \<Rightarrow> ws list" where
  "recipients s roomId excludeWs =
     map sock_ws
       (filter (\<lambda>c. readyOpen c \<and> registered_in s roomId (sock_ws c) \<and> Some (sock_ws c) \<noteq> excludeWs)
          (wss_clients s))"

definition broadcast :: "state \<Rightarrow> string option \<Rightarrow> out_msg \<Rightarrow> ws option \<Rightarrow> state" where
  "broadcast s roomId m excludeWs =
     (case get_prop (rooms s) (prop_key roomId) of
        Undefined \<Rightarrow> s
      | _ \<Rightarrow> s\<lparr>sent := sent s @ map (\<lambda>w. (w, m)) (recipients s roomId excludeWs)\<rparr>)"

definition sendTo :: "state \<Rightarrow> ws \<Rightarrow> out_msg \<Rightarrow> state" where
  "sendTo s w m = (if is_open s w then s\<lparr>sent := sent s @ [(w, m)]\<rparr> else s)"

text \<open>
  A mutation through a reference \<open>room\<close> obtained as \<open>rooms[k]\<close>: the object stored under
  \<open>k\<close> changes; \<open>deref\<close> reads the object again after other code may have changed it.
\<close>

definition mutate_room :: "string \<Rightarrow> (room \<Rightarrow> room) \<Rightarrow> state \<Rightarrow> state" where
  "mutate_room k f s = s\<lparr>rooms := AList.map_entry k f (rooms s)\<rparr>"

definition deref :: "state \<Rightarrow> string \<Rightarrow> room \<Rightarrow> room" where
  "deref s k r = (case map_of (rooms s) k of None \<Rightarrow> r | Some r' \<Rightarrow> r')"

section \<open>Leave room helper\<close>

definition left_msg :: "clientInfo \<Rightarrow> int \<Rightarrow> chatEntry" where
  "left_msg info now =
     \<lparr>m_sender = ''System'', m_color = ''#ff6b35'', m_text = info_name info @ '' left the game.'',
      m_ts = now\<rparr>"

definition delete_client :: "ws \<Rightarrow> state \<Rightarrow> state" where
  "delete_client w s = s\<lparr>clients := AList.delete (ws_key w) (clients s)\<rparr>"

definition leaveRoom :: "state \<Rightarrow> ws \<Rightarrow> int \<Rightarrow> error + state" where
  "leaveRoom s w now =
     (case map_of (clients s) (ws_key w) of
        None \<Rightarrow> Inr (delete_client w s)
      | Some info \<Rightarrow>
          if \<not> truthy (info_roomId info) then Inr (delete_client w s)
          else
            (case get_prop (rooms s) (prop_key (info_roomId info)) of
               Undefined \<Rightarrow> Inr (delete_client w s)
             | Inherited \<Rightarrow> Inl TypeError
             | Own room \<Rightarrow>
                 (case map_of (players room) (or_else (Some (info_playerId info)) []) of
                    None \<Rightarrow> Inr (delete_client w s)
                  | Some p \<Rightarrow>
                      let sysMsg = left_msg info now;
                          s1 = mutate_room (prop_key (info_roomId info))
                                 (\<lambda>r. r\<lparr>players := AList.delete (info_playerId info) (players r),
                                        chatHistory := chatHistory r @ [sysMsg]\<rparr>) s;
                          s2 = broadcast s1 (info_roomId info) (PlayerLeft (info_playerId info)) None;
                          s3 = broadcast s2 (info_roomId info) (Chat sysMsg) None
                      in Inr (delete_client w s3))))"

section \<open>WebSocket handlers\<close>

definition room_summaries :: "state \<Rightarrow> roomSummary list" where
  "room_summaries s =
     map (\<lambda>(k, r). \<lparr>s_id = r_id r, s_name = r_name r, playerCount = length (players r),
                     s_maxPlayers = maxPlayers r\<rparr>) (rooms s)"

definition on_connection :: "state \<Rightarrow> ws \<Rightarrow> string \<Rightarrow> state" where
  "on_connection s w pid =
     (let s1 = s\<lparr>wss_clients := wss_clients s @ [\<lparr>sock_ws = w, readyOpen = True, playerId = pid\<rparr>],
                 clients := AList.update (ws_key w)
                              \<lparr>info_playerId = pid, info_roomId = None, info_name = ''Player''\<rparr>
                              (clients s)\<rparr>
      in sendTo s1 w (Welcome pid (room_summaries s1)))"

definition random_color :: "rat \<Rightarrow> string" where
  "random_color r = CHR ''#'' # padStart 6 CHR ''0'' (toString16 (nat \<lfloor>r * 16777215\<rfloor>))"

definition spawn :: "rat \<Rightarrow> num" where
  "spawn r = (r - 1 / 2) * 10"

definition joined_msg :: "string \<Rightarrow> int \<Rightarrow> chatEntry" where
  "joined_msg playerName now =
     \<lparr>m_sender = ''System'', m_color = ''#00e5ff'', m_text = playerName @ '' joined the game!'',
      m_ts = now\<rparr>"

text \<open>
  The \<open>join_room\<close> case in two parts: \<open>case_join_room\<close> holds the two error returns and
  the implicit leave, \<open>join_admit\<close> the rest of the case body, run in the state \<open>s1\<close> that
  the implicit leave produced. The assignments to \<open>info.roomId\<close> and \<open>info.name\<close> change
  the session object; it is still stored in \<open>clients\<close> only if \<open>leaveRoom\<close>, which ends
  with \<open>delete clients[ws]\<close>, was not called.
\<close>

definition join_admit ::
  "state \<Rightarrow> ws \<Rightarrow> string \<Rightarrow> string \<Rightarrow> room \<Rightarrow> clientInfo \<Rightarrow> string option \<Rightarrow> string option \<Rightarrow> env
     \<Rightarrow> state" where
  "join_admit s1 w pid roomId room info mname mcolor e =
     (let spawnX = spawn (rnd_spawnX e);
          spawnZ = spawn (rnd_spawnZ e);
          playerName = or_else mname (''Player_'' @ take 6 pid);
          playerColor = or_else mcolor (random_color (rnd_color e));
          s2 = (if truthy (info_roomId info) then s1
                else s1\<lparr>clients := AList.update (ws_key w)
                          (info\<lparr>info_roomId := Some roomId, info_name := playerName\<rparr>)
                          (clients s1)\<rparr>);
          player = \<lparr>p_id = pid, p_name = playerName, p_color = playerColor,
                    p_x = spawnX, p_y = 2, p_z = spawnZ, p_rotY = 0, p_hp = 100,
                    p_joinedAt = now_joinedAt e\<rparr>;
          s3 = mutate_room roomId
                 (\<lambda>r. r\<lparr>players := AList.update pid player (players r)\<rparr>) s2;
          room3 = deref s3 roomId room;
          s4 = sendTo s3 w
                 (RoomJoined roomId (r_name room3) pid (players room3)
                    (mapData room3) (slice_last 30 (chatHistory room3)));
          s5 = broadcast s4 (Some roomId) (PlayerJoined player) (Some w);
          sysMsg = joined_msg playerName (now_ts e);
          s6 = mutate_room roomId
                 (\<lambda>r. r\<lparr>chatHistory := chatHistory r @ [sysMsg]\<rparr>) s5
      in broadcast s6 (Some roomId) (Chat sysMsg) None)"

definition case_join_room ::
  "state \<Rightarrow> ws \<Rightarrow> string \<Rightarrow> string \<Rightarrow> string option \<Rightarrow> string option \<Rightarrow> env \<Rightarrow> error + state" where
  "case_join_room s w pid roomId mname mcolor e =
     (case get_prop (rooms s) roomId of
        Undefined \<Rightarrow> Inr (sendTo s w (ErrorReply ''Room not found''))
      | Inherited \<Rightarrow> Inl TypeError
      | Own room \<Rightarrow>
          if length (players room) \<ge> maxPlayers room
          then Inr (sendTo s w (ErrorReply ''Room is full''))
          else
            (case map_of (clients s) (ws_key w) of
               None \<Rightarrow> Inl TypeError
             | Some info \<Rightarrow>
                 (case (if truthy (info_roomId info) then leaveRoom s w (now_left e) else Inr s) of
                    Inl err \<Rightarrow> Inl err
                  | Inr s1 \<Rightarrow> Inr (join_admit s1 w pid roomId room info mname mcolor e))))"

definition case_move :: "state \<Rightarrow> ws \<Rightarrow> string \<Rightarrow> num \<Rightarrow> num \<Rightarrow> num \<Rightarrow> num \<Rightarrow> error + state" where
  "case_move s w pid x y z rotY =
     (case map_of (clients s) (ws_key w) of
        None \<Rightarrow> Inl TypeError
      | Some info \<Rightarrow>
          (case get_prop (rooms s) (prop_key (info_roomId info)) of
             Undefined \<Rightarrow> Inr s
           | Inherited \<Rightarrow> Inl TypeError
           | Own room \<Rightarrow>
               (case map_of (players room) pid of
                  None \<Rightarrow> Inr s
                | Some p \<Rightarrow>
                    let s1 = mutate_room (prop_key (info_roomId info))
                               (\<lambda>r. r\<lparr>players := AList.update pid
                                       (p\<lparr>p_x := x, p_y := y, p_z := z, p_rotY := rotY\<rparr>) (players r)\<rparr>) s
                    in Inr (broadcast s1 (info_roomId info) (PlayerMoved pid x y z rotY) (Some w)))))"

definition push_chat :: "chatEntry \<Rightarrow> chatEntry list \<Rightarrow> chatEntry list" where
  "push_chat m h = (let h1 = h @ [m] in if length h1 > 100 then tl h1 else h1)"

definition case_chat :: "state \<Rightarrow> ws \<Rightarrow> string \<Rightarrow> string option \<Rightarrow> env \<Rightarrow> error + state" where
  "case_chat s w pid mtext e =
     (case map_of (clients s) (ws_key w) of
        None \<Rightarrow> Inl TypeError
      | Some info \<Rightarrow>
          (case get_prop (rooms s) (prop_key (info_roomId info)) of
             Undefined \<Rightarrow> Inr s
           | Inherited \<Rightarrow> Inl TypeError
           | Own room \<Rightarrow>
               let chatMsg = \<lparr>m_sender = info_name info,
                              m_color = or_else (map_option p_color (map_of (players room) pid)) ''#fff'',
                              m_text = take 200 (String mtext), m_ts = now_ts e\<rparr>;
                   s1 = mutate_room (prop_key (info_roomId info))
                          (\<lambda>r. r\<lparr>chatHistory := push_chat chatMsg (chatHistory r)\<rparr>) s
               in Inr (broadcast s1 (info_roomId info) (Chat chatMsg) None)))"

definition same_pos :: "num \<Rightarrow> num \<Rightarrow> num \<Rightarrow> block \<Rightarrow> bool" where
  "same_pos x y z b = (b_x b = x \<and> b_y b = y \<and> b_z b = z)"

definition place_block :: "num \<Rightarrow> num \<Rightarrow> num \<Rightarrow> string \<Rightarrow> block list \<Rightarrow> block list" where
  "place_block x y z blockType m =
     (let m1 = filter (\<lambda>b. \<not> same_pos x y z b) m
      in if blockType \<noteq> ''air'' then m1 @ [\<lparr>b_x = x, b_y = y, b_z = z, b_type = blockType\<rparr>]
         else m1)"

definition case_place_block :: "state \<Rightarrow> ws \<Rightarrow> num \<Rightarrow> num \<Rightarrow> num \<Rightarrow> string \<Rightarrow> error + state" where
  "case_place_block s w x y z blockType =
     (case map_of (clients s) (ws_key w) of
        None \<Rightarrow> Inl TypeError
      | Some info \<Rightarrow>
          (case get_prop (rooms s) (prop_key (info_roomId info)) of
             Undefined \<Rightarrow> Inr s
           | Inherited \<Rightarrow> Inl TypeError
           | Own room \<Rightarrow>
               let s1 = mutate_room (prop_key (info_roomId info))
                          (\<lambda>r. r\<lparr>mapData := place_block x y z blockType (mapData r)\<rparr>) s
               in Inr (broadcast s1 (info_roomId info) (BlockUpdate x y z blockType) None)))"

definition case_script_run :: "state \<Rightarrow> ws \<Rightarrow> string \<Rightarrow> error + state" where
  "case_script_run s w code =
     (case map_of (clients s) (ws_key w) of
        None \<Rightarrow> Inl TypeError
      | Some info \<Rightarrow>
          (case get_prop (rooms s) (prop_key (info_roomId info)) of
             Undefined \<Rightarrow> Inr s
           | _ \<Rightarrow> Inr (sendTo s w (ScriptOutput code (info_name info)))))"

text \<open>
  In \<open>save_map\<close>, a session whose room id names a property of \<open>Object.prototype\<close> would
  make the assignment \<open>room.mapData = ...\<close> write to a built-in object, which the state
  of this model does not hold: the model stops with \<open>Unmodelled\<close>. No handler stores
  such a room id in a session (\<open>case_join_room\<close> throws before it does).
\<close>

definition case_save_map :: "state \<Rightarrow> ws \<Rightarrow> block list \<Rightarrow> error + state" where
  "case_save_map s w newMap =
     (case map_of (clients s) (ws_key w) of
        None \<Rightarrow> Inl TypeError
      | Some info \<Rightarrow>
          (case get_prop (rooms s) (prop_key (info_roomId info)) of
             Undefined \<Rightarrow> Inr s
           | Inherited \<Rightarrow> Inl Unmodelled
           | Own room \<Rightarrow>
               let s1 = mutate_room (prop_key (info_roomId info)) (\<lambda>r. r\<lparr>mapData := newMap\<rparr>) s;
                   s2 = broadcast s1 (info_roomId info) (MapReload newMap) None
               in Inr (sendTo s2 w (Info ''Map saved and synced to all players!''))))"

definition on_message :: "state \<Rightarrow> ws \<Rightarrow> string \<Rightarrow> payload \<Rightarrow> env \<Rightarrow> error + state" where
  "on_message s w pid raw e =
     (case raw of
        Malformed \<Rightarrow> Inr s
      | JsonNull \<Rightarrow> Inl TypeError
      | Json m \<Rightarrow>
          (case m of
             JoinRoom roomId mname mcolor \<Rightarrow> case_join_room s w pid roomId mname mcolor e
           | Move x y z rotY \<Rightarrow> case_move s w pid x y z rotY
           | ChatText mtext \<Rightarrow> case_chat s w pid mtext e
           | PlaceBlock x y z blockType \<Rightarrow> case_place_block s w x y z blockType
           | ScriptRun code \<Rightarrow> case_script_run s w code
           | SaveMap newMap \<Rightarrow> case_save_map s w newMap
           | Ping \<Rightarrow> Inr (sendTo s w (Pong (now_ts e)))
           | UnknownType \<Rightarrow> Inr s))"

section \<open>Events of the server\<close>

text \<open>
  The events the runtime delivers: a new connection (with the id \<open>uuidv4()\<close> returns), a
  message on an open socket, and the \<open>error\<close> and \<open>close\<close> events of a socket. When
  \<open>error\<close> is delivered the socket is \<open>CLOSING\<close>: no longer \<open>OPEN\<close>, still a member of
  \<open>wss.clients\<close>, and its \<open>close\<close> is yet to come. When \<open>close\<close> is delivered the socket is
  \<open>CLOSED\<close> and \<open>wss.clients\<close> holds it no more. An event for a socket that is not in
  \<open>wss.clients\<close>, a second connection of the same socket object and a message on a socket
  that is not open do not occur; \<open>fire\<close> leaves the state as it is for them.
\<close>

datatype event =
    Connection ws string
  | Message ws payload env
  | Close ws int
  | Error ws int

definition set_closed :: "ws \<Rightarrow> state \<Rightarrow> state" where
  "set_closed w s =
     s\<lparr>wss_clients := map (\<lambda>c. if sock_ws c = w then c\<lparr>readyOpen := False\<rparr> else c) (wss_clients s)\<rparr>"

definition wss_clients_delete :: "ws \<Rightarrow> state \<Rightarrow> state" where
  "wss_clients_delete w s = s\<lparr>wss_clients := filter (\<lambda>c. sock_ws c \<noteq> w) (wss_clients s)\<rparr>"

definition fire :: "state \<Rightarrow> event \<Rightarrow> error + state" where
  "fire s ev =
     (case ev of
        Connection w pid \<Rightarrow>
          (case find_socket s w of None \<Rightarrow> Inr (on_connection s w pid) | Some c \<Rightarrow> Inr s)
      | Message w raw e \<Rightarrow>
          (case find_socket s w of
             None \<Rightarrow> Inr s
           | Some c \<Rightarrow> if readyOpen c then on_message s w (playerId c) raw e else Inr s)
      | Close w now \<Rightarrow>
          (case find_socket s w of
             None \<Rightarrow> Inr s
           | Some c \<Rightarrow> leaveRoom (wss_clients_delete w s) w now)
      | Error w now \<Rightarrow>
          (case find_socket s w of
             None \<Rightarrow> Inr s
           | Some c \<Rightarrow> leaveRoom (set_closed w s) w now))"

fun run :: "state \<Rightarrow> event list \<Rightarrow> error + state" where
  "run s [] = Inr s"
| "run s (ev # evs) = (case fire s ev of Inl err \<Rightarrow> Inl err | Inr s' \<Rightarrow> run s' evs)"

section \<open>The connection registry of the sibling variant\<close>

text \<open>
  The variant of the server in \<^verbatim>\<open>src/unnamed/part_000\<close> keeps \<open>clients\<close> in a \<open>Map\<close>,
  whose keys are the WebSocket objects themselves: \<open>clients.set(ws, info)\<close>,
  \<open>clients.get(ws)\<close> and \<open>clients.delete(ws)\<close>. Its connection handler registers the
  session with \<open>clients.set(ws, { playerId, roomId: null, name: 'Player' })\<close>.
\<close>

type_synonym registry = "(ws \<times> clientInfo) list"

definition Map_get :: "registry \<Rightarrow> ws \<Rightarrow> clientInfo option" where
  "Map_get cl w = map_of cl w"

definition Map_set :: "ws \<Rightarrow> clientInfo \<Rightarrow> registry \<Rightarrow> registry" where
  "Map_set w info cl = AList.update w info cl"

definition Map_delete :: "ws \<Rightarrow> registry \<Rightarrow> registry" where
  "Map_delete w cl = AList.delete w cl"

definition register_m :: "registry \<Rightarrow> ws \<Rightarrow> string \<Rightarrow> registry" where
  "register_m cl w pid = Map_set w \<lparr>info_playerId = pid, info_roomId = None, info_name = ''Player''\<rparr> cl"

section \<open>Sessions and scenario states\<close>

definition session :: "state \<Rightarrow> ws \<Rightarrow> clientInfo option" where
  "session s w = map_of (clients s) (ws_key w)"

text \<open>
  The session states of the protocol, read off the registry: the connection is in room
  \<open>R\<close> under player id \<open>pid\<close> when the session that \<open>clients[ws]\<close> resolves to names
  \<open>R\<close> and the player set of \<open>R\<close> holds a player under \<open>pid\<close>.
\<close>

definition in_room :: "state \<Rightarrow> ws \<Rightarrow> string \<Rightarrow> string \<Rightarrow> bool" where
  "in_room s w pid R =
     (R \<noteq> [] \<and>
      (case session s w of
         None \<Rightarrow> False
       | Some info \<Rightarrow> info_roomId info = Some R) \<and>
      (case get_prop (rooms s) R of
         Own room \<Rightarrow> map_of (players room) pid \<noteq> None
       | _ \<Rightarrow> False))"

definition open_sockets :: "state \<Rightarrow> ws list" where
  "open_sockets s = map sock_ws (filter readyOpen (wss_clients s))"

text \<open>The messages sent between two states, and those among them that go to one socket.\<close>

definition delivered :: "state \<Rightarrow> state \<Rightarrow> (ws \<times> out_msg) list" where
  "delivered s s' = drop (length (sent s)) (sent s')"

definition inbox :: "ws \<Rightarrow> (ws \<times> out_msg) list \<Rightarrow> out_msg list" where
  "inbox u msgs = map snd (filter (\<lambda>(v, m). v = u) msgs)"

definition env0 :: env where
  "env0 = \<lparr>rnd_spawnX = 1 / 2, rnd_spawnZ = 1 / 4, rnd_color = 1 / 2, now_left = 5,
            now_joinedAt = 6, now_ts = 7\<rparr>"

definition ann :: playerState where
  "ann = \<lparr>p_id = ''p1'', p_name = ''Ann'', p_color = ''red'', p_x = 0, p_y = 2, p_z = - (5 / 2),
           p_rotY = 0, p_hp = 100, p_joinedAt = 6\<rparr>"

definition seeds0 :: "nat \<Rightarrow> room_env" where
  "seeds0 = (\<lambda>i. \<lparr>map_random = (\<lambda>k. 1 / 2), now_created = 0\<rparr>)"

definition room_ok :: "room \<Rightarrow> bool" where
  "room_ok r = (distinct (map fst (players r)) \<and> length (players r) \<le> maxPlayers r)"

definition capacity_ok :: "state \<Rightarrow> bool" where
  "capacity_ok s = list_all (\<lambda>(k, r). room_ok r) (rooms s)"

definition lobby :: state where
  "lobby =
     \<lparr>rooms =
        [(''room_1'', (createRoom ''room_1'' ''Main World'' 20 (seeds0 0))
                        \<lparr>players := [(''p1'', ann)], chatHistory := [joined_msg ''Ann'' 7]\<rparr>),
         (''room_2'', createRoom ''room_2'' ''PvP Arena'' 20 (seeds0 1)),
         (''room_3'', createRoom ''room_3'' ''Builder Zone'' 20 (seeds0 2)),
         (''room_4'', createRoom ''room_4'' ''Roleplay City'' 20 (seeds0 3))],
      clients = [(ws_key 1, \<lparr>info_playerId = ''p1'', info_roomId = Some ''room_1'', info_name = ''Ann''\<rparr>)],
      wss_clients = [\<lparr>sock_ws = 1, readyOpen = True, playerId = ''p1''\<rparr>],
      sent = [(1, Welcome ''p1'' (room_summaries (initial_state seeds0))),
              (1, RoomJoined ''room_1'' ''Main World'' ''p1'' [(''p1'', ann)]
                    (generateDefaultMap (map_random (seeds0 0))) []),
              (1, Chat (joined_msg ''Ann'' 7))]\<rparr>"

definition fanout :: "state \<Rightarrow> string \<Rightarrow> ws option \<Rightarrow> out_msg \<Rightarrow> (ws \<times> out_msg) list" where
  "fanout s R x m =
     map (\<lambda>u. (u, m)) (filter (\<lambda>u. registered_in s (Some R) u \<and> Some u \<noteq> x) (open_sockets s))"

definition id_trace :: "(ws \<times> out_msg) list \<Rightarrow> (string \<times> string) list" where
  "id_trace msgs =
     List.map_filter
       (\<lambda>(u, m). case m of PlayerLeft p \<Rightarrow> Some (''player_left'', p)
                  | RoomJoined r rn p ps md ch \<Rightarrow> Some (''room_joined'', p)
                  | _ \<Rightarrow> None) msgs"

definition bob :: playerState where
  "bob = \<lparr>p_id = ''p2'', p_name = ''Bob'', p_color = ''blue'', p_x = 0, p_y = 2, p_z = - (5 / 2),
           p_rotY = 0, p_hp = 100, p_joinedAt = 6\<rparr>"

definition info_ann :: clientInfo where
  "info_ann = \<lparr>info_playerId = ''p1'', info_roomId = Some ''room_1'', info_name = ''Ann''\<rparr>"

definition info_bob :: clientInfo where
  "info_bob = \<lparr>info_playerId = ''p2'', info_roomId = Some ''room_1'', info_name = ''Bob''\<rparr>"

definition main_world :: "(string \<times> playerState) list \<Rightarrow> chatEntry list \<Rightarrow> room" where
  "main_world ps ch =
     (createRoom ''room_1'' ''Main World'' 20 (seeds0 0))\<lparr>players := ps, chatHistory := ch\<rparr>"

definition duo :: state where
  "duo =
     \<lparr>rooms =
        [(''room_1'', main_world [(''p2'', bob)] [joined_msg ''Bob'' 7]),
         (''room_2'', createRoom ''room_2'' ''PvP Arena'' 20 (seeds0 1)),
         (''room_3'', createRoom ''room_3'' ''Builder Zone'' 20 (seeds0 2)),
         (''room_4'', createRoom ''room_4'' ''Roleplay City'' 20 (seeds0 3))],
      clients = [(ws_key 2, info_bob)],
      wss_clients = [\<lparr>sock_ws = 1, readyOpen = True, playerId = ''p1''\<rparr>,
                     \<lparr>sock_ws = 2, readyOpen = True, playerId = ''p2''\<rparr>],
      sent = [(1, Welcome ''p1'' (room_summaries (initial_state seeds0))),
              (2, Welcome ''p2'' (room_summaries (initial_state seeds0))),
              (2, RoomJoined ''room_1'' ''Main World'' ''p2'' [(''p2'', bob)]
                    (generateDefaultMap (map_random (seeds0 0))) []),
              (1, PlayerJoined bob),
              (1, Chat (joined_msg ''Bob'' 7)),
              (2, Chat (joined_msg ''Bob'' 7))]\<rparr>"

definition hi_msg :: chatEntry where
  "hi_msg = \<lparr>m_sender = ''Ann'', m_color = ''red'', m_text = ''hi'', m_ts = 7\<rparr>"

definition lobby_after :: "nat \<Rightarrow> state" where
  "lobby_after n =
     \<lparr>rooms =
        [(''room_1'', main_world [(''p1'', ann)] (joined_msg ''Ann'' 7 # replicate n hi_msg)),
         (''room_2'', createRoom ''room_2'' ''PvP Arena'' 20 (seeds0 1)),
         (''room_3'', createRoom ''room_3'' ''Builder Zone'' 20 (seeds0 2)),
         (''room_4'', createRoom ''room_4'' ''Roleplay City'' 20 (seeds0 3))],
      clients = [(ws_key 1, info_ann)],
      wss_clients = [\<lparr>sock_ws = 1, readyOpen = True, playerId = ''p1''\<rparr>],
      sent = sent lobby @ replicate n (1, Chat hi_msg)\<rparr>"

type_synonym coord = "num \<times> num \<times> num"

definition pos :: "block \<Rightarrow> coord" where
  "pos b = (b_x b, b_y b, b_z b)"

definition place_all :: "(coord \<times> string) list \<Rightarrow> block list \<Rightarrow> block list" where
  "place_all ops m = fold (\<lambda>((x, y, z), t). place_block x y z t) ops m"

definition place_events :: "ws \<Rightarrow> env \<Rightarrow> (coord \<times> string) list \<Rightarrow> event list" where
  "place_events w e ops = map (\<lambda>((x, y, z), t). Message w (Json (PlaceBlock x y z t)) e) ops"

fun last_type :: "(coord \<times> string) list \<Rightarrow> coord \<Rightarrow> string option" where
  "last_type [] c = None"
| "last_type ((c', t) # ops) c =
     (case last_type ops c of Some t' \<Rightarrow> Some t' | None \<Rightarrow> if c' = c then Some t else None)"

definition stone5 :: block where
  "stone5 = \<lparr>b_x = 5, b_y = 1, b_z = 5, b_type = ''stone''\<rparr>"

definition crossed :: state where
  "crossed =
     \<lparr>rooms =
        [(''room_1'', main_world [(''p1'', ann)] [joined_msg ''Ann'' 7]),
         (''room_2'', createRoom ''room_2'' ''PvP Arena'' 20 (seeds0 1)),
         (''room_3'', createRoom ''room_3'' ''Builder Zone'' 20 (seeds0 2)),
         (''room_4'', createRoom ''room_4'' ''Roleplay City'' 20 (seeds0 3))],
      clients = [(ws_key 2, \<lparr>info_playerId = ''p2'', info_roomId = Some ''room_1'', info_name = ''Ann''\<rparr>)],
      wss_clients = [\<lparr>sock_ws = 1, readyOpen = True, playerId = ''p1''\<rparr>,
                     \<lparr>sock_ws = 2, readyOpen = True, playerId = ''p2''\<rparr>],
      sent = [(1, Welcome ''p1'' (room_summaries (initial_state seeds0))),
              (2, Welcome ''p2'' (room_summaries (initial_state seeds0))),
              (1, RoomJoined ''room_1'' ''Main World'' ''p1'' [(''p1'', ann)]
                    (generateDefaultMap (map_random (seeds0 0))) []),
              (2, PlayerJoined ann),
              (1, Chat (joined_msg ''Ann'' 7)),
              (2, Chat (joined_msg ''Ann'' 7))]\<rparr>"

definition uid :: "nat \<Rightarrow> string" where
  "uid i = replicate i CHR ''u''"

definition joiner :: "nat \<Rightarrow> event list" where
  "joiner i = [Connection i (uid i), Message i (Json (JoinRoom ''room_1'' (Some ''P'') (Some ''c''))) env0]"

definition crowd :: "nat \<Rightarrow> event list" where
  "crowd n = concat (map joiner [1..<Suc n])"

definition crowded :: "nat \<Rightarrow> state \<Rightarrow> bool" where
  "crowded n s =
     ((\<exists>r. map_of (rooms s) ''room_1'' = Some r \<and> map fst (players r) = map uid [1..<Suc n] \<and>
           maxPlayers r = 20) \<and>
      (\<forall>i. find_socket s i =
             (if 1 \<le> i \<and> i \<le> n then Some \<lparr>sock_ws = i, readyOpen = True, playerId = uid i\<rparr>
              else None)) \<and>
      clients s = (if n = 0 then []
                   else [(ws_key n, \<lparr>info_playerId = uid n, info_roomId = Some ''room_1'',
                                     info_name = ''P''\<rparr>)]))"

section \<open>Basic facts about the helpers\<close>

declare toString10.simps [simp del] toString16.simps [simp del]

lemma rooms_sendTo [simp]: "rooms (sendTo s w m) = rooms s"
  and clients_sendTo [simp]: "clients (sendTo s w m) = clients s"
  and wss_sendTo [simp]: "wss_clients (sendTo s w m) = wss_clients s"
  by (simp_all add: sendTo_def)

lemma sent_sendTo: "sent (sendTo s w m) = (if is_open s w then sent s @ [(w, m)] else sent s)"
  by (simp add: sendTo_def)

lemma rooms_broadcast [simp]: "rooms (broadcast s k m x) = rooms s"
  and clients_broadcast [simp]: "clients (broadcast s k m x) = clients s"
  and wss_broadcast [simp]: "wss_clients (broadcast s k m x) = wss_clients s"
  by (simp_all add: broadcast_def split: property.splits)

lemma sent_broadcast:
  "sent (broadcast s k m x) =
     (if get_prop (rooms s) (prop_key k) = Undefined then sent s
      else sent s @ map (\<lambda>w. (w, m)) (recipients s k x))"
  by (simp add: broadcast_def split: property.splits)

lemma rooms_mutate: "rooms (mutate_room k f s) = AList.map_entry k f (rooms s)"
  and clients_mutate [simp]: "clients (mutate_room k f s) = clients s"
  and wss_mutate [simp]: "wss_clients (mutate_room k f s) = wss_clients s"
  and sent_mutate [simp]: "sent (mutate_room k f s) = sent s"
  by (simp_all add: mutate_room_def)

lemma rooms_delete_client [simp]: "rooms (delete_client w s) = rooms s"
  and wss_delete_client [simp]: "wss_clients (delete_client w s) = wss_clients s"
  and sent_delete_client [simp]: "sent (delete_client w s) = sent s"
  and clients_delete_client: "clients (delete_client w s) = AList.delete (ws_key w) (clients s)"
  by (simp_all add: delete_client_def)

lemma keys_map_entry [simp]: "map fst (AList.map_entry k f al) = map fst al"
  by (induction al) auto

lemma map_of_map_entry_eq:
  "map_of (AList.map_entry k f al) k' =
     (if k' = k then map_option f (map_of al k) else map_of al k')"
  by (induction al) auto

lemma get_prop_map_entry:
  "get_prop (AList.map_entry k f al) k' =
     (case get_prop al k' of Own v \<Rightarrow> Own (if k' = k then f v else v) | Inherited \<Rightarrow> Inherited
      | Undefined \<Rightarrow> Undefined)"
  by (auto simp: get_prop_def map_of_map_entry_eq split: option.splits)

lemma set_map_entry:
  "(k', r') \<in> set (AList.map_entry k f al) \<Longrightarrow>
     (k', r') \<in> set al \<or> (k' = k \<and> (\<exists>r. map_of al k = Some r \<and> r' = f r))"
  by (induction al) (auto split: if_splits)

lemma or_else_simps [simp]: "or_else None d = d" "or_else (Some []) d = d" "str \<noteq> [] \<Longrightarrow> or_else (Some str) d = str"
  by (simp_all add: or_else_def)

lemma or_else_self [simp]: "or_else (Some str) [] = str"
  by (simp add: or_else_def)

lemma toString10_digits:
  "toString10 (Suc 0) = ''1''" "toString10 (Suc (Suc 0)) = ''2''"
  "toString10 (Suc (Suc (Suc 0))) = ''3''" "toString10 (Suc (Suc (Suc (Suc 0)))) = ''4''"
  by (simp_all add: hex_digit_def toString10.simps)

lemma seed_rooms_eq:
  "seed_rooms e =
     [(''room_1'', createRoom ''room_1'' ''Main World'' 20 (e 0)),
      (''room_2'', createRoom ''room_2'' ''PvP Arena'' 20 (e 1)),
      (''room_3'', createRoom ''room_3'' ''Builder Zone'' 20 (e 2)),
      (''room_4'', createRoom ''room_4'' ''Roleplay City'' 20 (e 3))]"
  by (simp add: seed_rooms_def seed_names_def enumerate_eq_zip upt_rec toString10_digits
      numeral_2_eq_2 numeral_3_eq_3)

lemmas eval_defs = fire_def on_connection_def on_message_def case_join_room_def join_admit_def case_move_def case_chat_def
  case_place_block_def case_save_map_def case_script_run_def leaveRoom_def
  sendTo_def broadcast_def recipients_def registered_in_def is_open_def find_socket_def
  mutate_room_def deref_def delete_client_def set_closed_def wss_clients_delete_def
  room_summaries_def
  get_prop_def prop_key_def ws_key_def truthy_def Object_prototype_def
  createRoom_def joined_msg_def left_msg_def
  session_def in_room_def slice_last_def push_chat_def

lemma join_full:
  "get_prop (rooms s) R = Own room \<Longrightarrow> maxPlayers room \<le> length (players room) \<Longrightarrow>
   case_join_room s w pid R n c e = Inr (sendTo s w (ErrorReply ''Room is full''))"
  by (simp add: case_join_room_def)

lemma join_not_found:
  "get_prop (rooms s) R = Undefined \<Longrightarrow>
   case_join_room s w pid R n c e = Inr (sendTo s w (ErrorReply ''Room not found''))"
  by (simp add: case_join_room_def)

lemma join_inherited:
  "get_prop (rooms s) R = Inherited \<Longrightarrow> case_join_room s w pid R n c e = Inl TypeError"
  by (simp add: case_join_room_def)

lemma in_room_sent [simp]: "in_room (s\<lparr>sent := x\<rparr>) w pid R = in_room s w pid R"
  by (simp add: in_room_def session_def)

lemma get_prop_Own_iff: "get_prop al k = Own v \<longleftrightarrow> map_of al k = Some v"
  by (simp add: get_prop_def split: option.splits)

lemma get_prop_Undefined_iff:
  "get_prop al k = Undefined \<longleftrightarrow> map_of al k = None \<and> k \<notin> set Object_prototype"
  by (simp add: get_prop_def split: option.splits)

lemma get_prop_keys:
  "map fst al' = map fst al \<Longrightarrow> get_prop al k = Undefined \<Longrightarrow> get_prop al' k = Undefined"
  by (metis get_prop_Undefined_iff map_of_eq_None_iff set_map)

lemma leaveRoom_keys: "leaveRoom s w t = Inr s' \<Longrightarrow> map fst (rooms s') = map fst (rooms s)"
  by (auto simp: leaveRoom_def Let_def rooms_mutate split: option.splits property.splits if_splits)

lemma join_keys:
  "case_join_room s w pid R n c e = Inr s' \<Longrightarrow> map fst (rooms s') = map fst (rooms s)"
  by (auto simp: case_join_room_def join_admit_def Let_def rooms_mutate dest: leaveRoom_keys
      split: option.splits property.splits if_splits sum.splits)

lemma move_keys: "case_move s w pid x y z r = Inr s' \<Longrightarrow> map fst (rooms s') = map fst (rooms s)"
  by (auto simp: case_move_def Let_def rooms_mutate split: option.splits property.splits)

lemma chat_keys: "case_chat s w pid t e = Inr s' \<Longrightarrow> map fst (rooms s') = map fst (rooms s)"
  by (auto simp: case_chat_def Let_def rooms_mutate split: option.splits property.splits)

lemma place_keys: "case_place_block s w x y z t = Inr s' \<Longrightarrow> map fst (rooms s') = map fst (rooms s)"
  by (auto simp: case_place_block_def Let_def rooms_mutate split: option.splits property.splits)

lemma save_keys: "case_save_map s w m = Inr s' \<Longrightarrow> map fst (rooms s') = map fst (rooms s)"
  by (auto simp: case_save_map_def Let_def rooms_mutate split: option.splits property.splits)

lemma script_keys: "case_script_run s w c = Inr s' \<Longrightarrow> map fst (rooms s') = map fst (rooms s)"
  by (auto simp: case_script_run_def split: option.splits property.splits)

lemma on_message_keys:
  assumes "on_message s w pid raw e = Inr s'"
  shows "map fst (rooms s') = map fst (rooms s)"
proof (cases raw)
  case (Json m)
  then show ?thesis
    using assms
    by (cases m)
      (auto simp: on_message_def join_keys move_keys chat_keys place_keys save_keys script_keys)
qed (use assms in \<open>simp_all add: on_message_def\<close>)

lemma rooms_set_closed [simp]: "rooms (set_closed w s) = rooms s"
  and clients_set_closed [simp]: "clients (set_closed w s) = clients s"
  and sent_set_closed [simp]: "sent (set_closed w s) = sent s"
  by (simp_all add: set_closed_def)

lemma rooms_wss_clients_delete [simp]: "rooms (wss_clients_delete w s) = rooms s"
  and clients_wss_clients_delete [simp]: "clients (wss_clients_delete w s) = clients s"
  and sent_wss_clients_delete [simp]: "sent (wss_clients_delete w s) = sent s"
  by (simp_all add: wss_clients_delete_def)

lemma rooms_on_connection [simp]: "rooms (on_connection s w pid) = rooms s"
  by (simp add: on_connection_def Let_def)

lemma fire_keys:
  assumes "fire s ev = Inr s'"
  shows "map fst (rooms s') = map fst (rooms s)"
proof (cases ev)
  case (Connection w pid)
  with assms show ?thesis by (auto simp: fire_def split: option.splits)
next
  case (Message w raw e)
  with assms show ?thesis
    by (auto simp: fire_def split: option.splits if_splits dest: on_message_keys)
next
  case (Close w t)
  with assms show ?thesis
    by (auto simp: fire_def split: option.splits if_splits dest: leaveRoom_keys)
next
  case (Error w t)
  with assms show ?thesis
    by (auto simp: fire_def split: option.splits dest: leaveRoom_keys)
qed

lemma run_keys: "run s evs = Inr s' \<Longrightarrow> map fst (rooms s') = map fst (rooms s)"
proof (induction evs arbitrary: s)
  case Nil
  then show ?case by simp
next
  case (Cons ev evs)
  then obtain s1 where 1: "fire s ev = Inr s1" and 2: "run s1 evs = Inr s'"
    by (auto split: sum.splits)
  from Cons.IH [OF 2] fire_keys [OF 1] show ?case by simp
qed

lemma seed_keys: "map fst (seed_rooms e) = [''room_1'', ''room_2'', ''room_3'', ''room_4'']"
  by (simp add: seed_rooms_eq)

lemma reachable_null_undefined:
  assumes "run (initial_state e) evs = Inr s"
  shows "get_prop (rooms s) ''null'' = Undefined"
proof -
  have "map fst (rooms s) = map fst (seed_rooms e)"
    using run_keys [OF assms] by (simp add: initial_state_def)
  moreover have "get_prop (seed_rooms e) ''null'' = Undefined"
    by (simp add: get_prop_def seed_rooms_eq Object_prototype_def)
  ultimately show ?thesis by (rule get_prop_keys)
qed

lemma unjoined_noop:
  assumes "session s w = Some info" and "info_roomId info = None"
    and "get_prop (rooms s) ''null'' = Undefined"
  shows "case_move s w pid x y z r = Inr s" and "case_chat s w pid t e = Inr s"
    and "case_place_block s w bx by bz bt = Inr s" and "case_save_map s w mp = Inr s"
  using assms
  by (simp_all add: session_def case_move_def case_chat_def case_place_block_def
      case_save_map_def prop_key_def)

lemma length_update:
  "length (AList.update k v al) = (if k \<in> fst ` set al then length al else Suc (length al))"
  by (induction al) auto

lemma length_delete_present:
  "distinct (map fst al) \<Longrightarrow> map_of al k = Some v \<Longrightarrow> Suc (length (AList.delete k al)) = length al"
proof (induction al)
  case Nil
  then show ?case by simp
next
  case (Cons a al)
  then show ?case
    by (cases a) (auto simp: rev_image_eqI split: if_splits)
qed

lemma capacity_ok_mutate:
  assumes "capacity_ok s"
    and "\<And>r. map_of (rooms s) k = Some r \<Longrightarrow> room_ok r \<Longrightarrow> room_ok (f r)"
  shows "capacity_ok (mutate_room k f s)"
proof -
  have "room_ok r'" if "(k', r') \<in> set (AList.map_entry k f (rooms s))" for k' r'
  proof -
    from set_map_entry [OF that]
    consider "(k', r') \<in> set (rooms s)" | r where "map_of (rooms s) k = Some r" "r' = f r"
      by blast
    then show ?thesis
    proof cases
      case 1
      with assms(1) show ?thesis by (auto simp: capacity_ok_def list_all_iff)
    next
      case 2
      from 2(1) have "(k, r) \<in> set (rooms s)" by (rule map_of_SomeD)
      with assms(1) have "room_ok r" by (auto simp: capacity_ok_def list_all_iff)
      with assms(2) 2 show ?thesis by simp
    qed
  qed
  then show ?thesis by (auto simp: capacity_ok_def list_all_iff rooms_mutate)
qed

lemma capacity_ok_cong: "rooms s' = rooms s \<Longrightarrow> capacity_ok s' = capacity_ok s"
  by (simp add: capacity_ok_def)

lemma capacity_ok_simps [simp]:
  "capacity_ok (sendTo s w m) = capacity_ok s"
  "capacity_ok (broadcast s k m x) = capacity_ok s"
  "capacity_ok (delete_client w s) = capacity_ok s"
  "capacity_ok (set_closed w s) = capacity_ok s"
  "capacity_ok (wss_clients_delete w s) = capacity_ok s"
  "capacity_ok (on_connection s w pid) = capacity_ok s"
  "capacity_ok (s\<lparr>clients := cl\<rparr>) = capacity_ok s"
  by (simp_all add: capacity_ok_def)

lemma room_ok_chat [simp]: "room_ok (r\<lparr>chatHistory := h\<rparr>) = room_ok r"
  and room_ok_map [simp]: "room_ok (r\<lparr>mapData := m\<rparr>) = room_ok r"
  by (simp_all add: room_ok_def)

lemma room_ok_delete: "room_ok r \<Longrightarrow> room_ok (r\<lparr>players := AList.delete k (players r)\<rparr>)"
  using length_delete_le [of k "players r"] by (simp add: room_ok_def distinct_delete)

lemma room_ok_update_present:
  "room_ok r \<Longrightarrow> map_of (players r) k = Some p \<Longrightarrow> room_ok (r\<lparr>players := AList.update k v (players r)\<rparr>)"
  by (auto simp: room_ok_def distinct_update length_update dest: map_of_SomeD intro: rev_image_eqI)

lemma room_ok_update_free:
  "room_ok r \<Longrightarrow> length (players r) < maxPlayers r \<Longrightarrow> room_ok (r\<lparr>players := AList.update k v (players r)\<rparr>)"
  by (auto simp: room_ok_def distinct_update length_update)

lemma leaveRoom_cases:
  assumes "leaveRoom s w t = Inr s'"
  obtains (quiet) "s' = delete_client w s"
  | (left) info R room p where "session s w = Some info" "info_roomId info = Some R" "R \<noteq> []"
      "get_prop (rooms s) R = Own room" "map_of (players room) (info_playerId info) = Some p"
      "s' = delete_client w
              (broadcast
                (broadcast
                  (mutate_room R
                     (\<lambda>r. r\<lparr>players := AList.delete (info_playerId info) (players r),
                            chatHistory := chatHistory r @ [left_msg info t]\<rparr>) s)
                  (Some R) (PlayerLeft (info_playerId info)) None)
                (Some R) (Chat (left_msg info t)) None)"
  using assms
  by (auto simp: leaveRoom_def session_def Let_def truthy_def prop_key_def
      split: option.splits property.splits if_splits)

lemma leaveRoom_capacity:
  assumes "capacity_ok s" and "leaveRoom s w t = Inr s'"
  shows "capacity_ok s'"
  using assms(2)
proof (cases rule: leaveRoom_cases)
  case quiet
  with assms(1) show ?thesis by simp
next
  case (left info R room p)
  with assms(1) show ?thesis
    by (simp add: capacity_ok_mutate room_ok_delete)
qed

lemma leaveRoom_shrinks:
  assumes "leaveRoom s w t = Inr s'" and "map_of (rooms s) k = Some r"
  shows "\<exists>r'. map_of (rooms s') k = Some r' \<and> length (players r') \<le> length (players r) \<and>
              maxPlayers r' = maxPlayers r"
  using assms(1)
proof (cases rule: leaveRoom_cases)
  case quiet
  with assms(2) show ?thesis by simp
next
  case (left info R room p)
  with assms(2) show ?thesis
    by (auto simp: rooms_mutate map_of_map_entry_eq length_delete_le)
qed

lemma admit_capacity:
  assumes "capacity_ok s1" and "map_of (rooms s1) R = Some r1"
    and "length (players r1) < maxPlayers r1"
  shows "capacity_ok (join_admit s1 w pid R room info n c e)"
proof -
  have "capacity_ok (mutate_room R (\<lambda>r. r\<lparr>players := AList.update pid pl (players r)\<rparr>) s2)"
    if "rooms s2 = rooms s1" for s2 pl
  proof (rule capacity_ok_mutate)
    show "capacity_ok s2" using that assms(1) by (simp add: capacity_ok_def)
  next
    fix r
    assume "map_of (rooms s2) R = Some r" and "room_ok r"
    with that assms(2,3) show "room_ok (r\<lparr>players := AList.update pid pl (players r)\<rparr>)"
      by (simp add: room_ok_update_free)
  qed
  then show ?thesis
    by (simp add: join_admit_def Let_def capacity_ok_mutate)
qed

lemma join_capacity:
  assumes ok: "capacity_ok s" and j: "case_join_room s w pid R n c e = Inr s'"
  shows "capacity_ok s'"
proof (cases "get_prop (rooms s) R")
  case (Own room)
  show ?thesis
  proof (cases "maxPlayers room \<le> length (players room)")
    case True
    with Own j ok show ?thesis by (auto simp: join_full)
  next
    case False
    from Own have room: "map_of (rooms s) R = Some room" by (simp add: get_prop_Own_iff)
    from Own False j obtain info where info: "map_of (clients s) (ws_key w) = Some info"
      by (auto simp: case_join_room_def split: option.splits)
    from Own False j info obtain s1 where
      s1: "(if truthy (info_roomId info) then leaveRoom s w (now_left e) else Inr s) = Inr s1"
      and s': "s' = join_admit s1 w pid R room info n c e"
      by (auto simp: case_join_room_def split: sum.splits)
    have ok1: "capacity_ok s1"
      using s1 ok by (auto split: if_splits dest: leaveRoom_capacity)
    have "\<exists>r1. map_of (rooms s1) R = Some r1 \<and> length (players r1) \<le> length (players room) \<and>
              maxPlayers r1 = maxPlayers room"
      using s1 room by (auto split: if_splits dest: leaveRoom_shrinks)
    then obtain r1 where r1: "map_of (rooms s1) R = Some r1"
      "length (players r1) < maxPlayers r1"
      using False by auto
    show ?thesis unfolding s' using ok1 r1 by (rule admit_capacity)
  qed
next
  case Inherited
  with j show ?thesis by (simp add: join_inherited)
next
  case Undefined
  with j ok show ?thesis by (auto simp: join_not_found)
qed

lemma move_capacity:
  assumes "capacity_ok s" and "case_move s w pid x y z r = Inr s'"
  shows "capacity_ok s'"
  using assms
  by (auto simp: case_move_def Let_def get_prop_Own_iff room_ok_update_present
      intro!: capacity_ok_mutate split: option.splits property.splits)

lemma chat_capacity: "capacity_ok s \<Longrightarrow> case_chat s w pid t e = Inr s' \<Longrightarrow> capacity_ok s'"
  by (auto simp: case_chat_def Let_def intro!: capacity_ok_mutate split: option.splits property.splits)

lemma place_capacity: "capacity_ok s \<Longrightarrow> case_place_block s w x y z t = Inr s' \<Longrightarrow> capacity_ok s'"
  by (auto simp: case_place_block_def Let_def intro!: capacity_ok_mutate split: option.splits property.splits)

lemma save_capacity: "capacity_ok s \<Longrightarrow> case_save_map s w m = Inr s' \<Longrightarrow> capacity_ok s'"
  by (auto simp: case_save_map_def Let_def intro!: capacity_ok_mutate split: option.splits property.splits)

lemma script_capacity: "capacity_ok s \<Longrightarrow> case_script_run s w c = Inr s' \<Longrightarrow> capacity_ok s'"
  by (auto simp: case_script_run_def split: option.splits property.splits)

lemma on_message_capacity:
  assumes "capacity_ok s" and "on_message s w pid raw e = Inr s'"
  shows "capacity_ok s'"
proof (cases raw)
  case (Json m)
  show ?thesis
  proof (cases m)
    case (JoinRoom R n c)
    with Json assms(2) have "case_join_room s w pid R n c e = Inr s'" by (simp add: on_message_def)
    with assms(1) show ?thesis by (rule join_capacity)
  next
    case (Move x y z r)
    with Json assms(2) have "case_move s w pid x y z r = Inr s'" by (simp add: on_message_def)
    with assms(1) show ?thesis by (rule move_capacity)
  next
    case (ChatText t)
    with Json assms(2) have "case_chat s w pid t e = Inr s'" by (simp add: on_message_def)
    with assms(1) show ?thesis by (rule chat_capacity)
  next
    case (PlaceBlock x y z t)
    with Json assms(2) have "case_place_block s w x y z t = Inr s'" by (simp add: on_message_def)
    with assms(1) show ?thesis by (rule place_capacity)
  next
    case (ScriptRun c)
    with Json assms(2) have "case_script_run s w c = Inr s'" by (simp add: on_message_def)
    with assms(1) show ?thesis by (rule script_capacity)
  next
    case (SaveMap mp)
    with Json assms(2) have "case_save_map s w mp = Inr s'" by (simp add: on_message_def)
    with assms(1) show ?thesis by (rule save_capacity)
  next
    case Ping
    with Json assms show ?thesis by (auto simp: on_message_def)
  next
    case UnknownType
    with Json assms show ?thesis by (auto simp: on_message_def)
  qed
qed (use assms in \<open>simp_all add: on_message_def\<close>)

lemma fire_capacity:
  assumes "capacity_ok s" and "fire s ev = Inr s'"
  shows "capacity_ok s'"
proof (cases ev)
  case (Connection w pid)
  with assms show ?thesis by (auto simp: fire_def split: option.splits)
next
  case (Message w raw e)
  with assms show ?thesis
    by (auto simp: fire_def split: option.splits if_splits dest: on_message_capacity)
next
  case (Close w t)
  with assms show ?thesis
    by (auto simp: fire_def split: option.splits dest: leaveRoom_capacity [rotated])
next
  case (Error w t)
  with assms show ?thesis
    by (auto simp: fire_def split: option.splits dest: leaveRoom_capacity [rotated])
qed

lemma run_capacity: "capacity_ok s \<Longrightarrow> run s evs = Inr s' \<Longrightarrow> capacity_ok s'"
proof (induction evs arbitrary: s)
  case Nil
  then show ?case by simp
next
  case (Cons ev evs)
  then obtain s1 where 1: "fire s ev = Inr s1" and 2: "run s1 evs = Inr s'"
    by (auto split: sum.splits)
  from Cons.IH [OF fire_capacity [OF Cons.prems(1) 1] 2] show ?case .
qed

lemma initial_capacity: "capacity_ok (initial_state e)"
  by (simp add: capacity_ok_def room_ok_def initial_state_def seed_rooms_eq createRoom_def)

lemma lobby_reached:
  "run (initial_state seeds0)
     [Connection 1 ''p1'', Message 1 (Json (JoinRoom ''room_1'' (Some ''Ann'') (Some ''red''))) env0] =
   Inr lobby"
  by (simp add: lobby_def ann_def env0_def initial_state_def seed_rooms_eq eval_defs Let_def spawn_def)

lemma recipients_eq:
  "recipients s k x = filter (\<lambda>u. registered_in s k u \<and> Some u \<noteq> x) (open_sockets s)"
  by (simp add: recipients_def open_sockets_def filter_map comp_def conj_commute conj_left_commute)

lemma registered_in_cong:
  "clients s' = clients s \<Longrightarrow> registered_in s' k u = registered_in s k u"
  by (simp add: registered_in_def)

lemma recipients_cong:
  "clients s' = clients s \<Longrightarrow> wss_clients s' = wss_clients s \<Longrightarrow>
   recipients s' k x = recipients s k x"
  by (simp add: recipients_def registered_in_def)

lemma open_sockets_simps [simp]:
  "open_sockets (mutate_room k f s) = open_sockets s"
  "open_sockets (broadcast s rk m x) = open_sockets s"
  "open_sockets (sendTo s w m) = open_sockets s"
  "open_sockets (delete_client w s) = open_sockets s"
  by (simp_all add: open_sockets_def)

lemma is_open_simps [simp]:
  "is_open (mutate_room k f s) w = is_open s w"
  "is_open (broadcast s rk m x) w = is_open s w"
  "is_open (sendTo s u m) w = is_open s w"
  "is_open (delete_client u s) w = is_open s w"
  by (simp_all add: is_open_def find_socket_def)

lemma delivered_self [simp]: "delivered s s = []"
  by (simp add: delivered_def)

lemma delivered_append: "sent s' = sent s @ xs \<Longrightarrow> delivered s s' = xs"
  by (simp add: delivered_def)

lemma get_prop_Own_not_Undefined: "get_prop al k = Own v \<Longrightarrow> get_prop al k \<noteq> Undefined"
  by simp

lemma move_in_room:
  assumes "session s w = Some info" and "info_roomId info = Some R"
    and "get_prop (rooms s) R = Own room" and "map_of (players room) pid = Some p"
  shows "case_move s w pid x y z rotY =
           Inr (broadcast
                  (mutate_room R
                     (\<lambda>r. r\<lparr>players := AList.update pid
                              (p\<lparr>p_x := x, p_y := y, p_z := z, p_rotY := rotY\<rparr>) (players r)\<rparr>) s)
                  (Some R) (PlayerMoved pid x y z rotY) (Some w))"
  using assms by (simp add: case_move_def session_def prop_key_def)

lemma chat_in_room:
  assumes "session s w = Some info" and "info_roomId info = Some R"
    and "get_prop (rooms s) R = Own room"
  shows "case_chat s w pid t e =
           Inr (broadcast
                  (mutate_room R
                     (\<lambda>r. r\<lparr>chatHistory := push_chat
                              \<lparr>m_sender = info_name info,
                               m_color = or_else (map_option p_color (map_of (players room) pid)) ''#fff'',
                               m_text = take 200 (String t), m_ts = now_ts e\<rparr> (chatHistory r)\<rparr>) s)
                  (Some R)
                  (Chat \<lparr>m_sender = info_name info,
                         m_color = or_else (map_option p_color (map_of (players room) pid)) ''#fff'',
                         m_text = take 200 (String t), m_ts = now_ts e\<rparr>) None)"
  using assms by (simp add: case_chat_def session_def prop_key_def Let_def)

lemma place_in_room:
  assumes "session s w = Some info" and "info_roomId info = Some R"
    and "get_prop (rooms s) R = Own room"
  shows "case_place_block s w x y z t =
           Inr (broadcast
                  (mutate_room R (\<lambda>r. r\<lparr>mapData := place_block x y z t (mapData r)\<rparr>) s)
                  (Some R) (BlockUpdate x y z t) None)"
  using assms by (simp add: case_place_block_def session_def prop_key_def Let_def)

lemma save_in_room:
  assumes "session s w = Some info" and "info_roomId info = Some R"
    and "get_prop (rooms s) R = Own room"
  shows "case_save_map s w mp =
           Inr (sendTo
                  (broadcast (mutate_room R (\<lambda>r. r\<lparr>mapData := mp\<rparr>) s) (Some R) (MapReload mp) None)
                  w (Info ''Map saved and synced to all players!''))"
  using assms by (simp add: case_save_map_def session_def prop_key_def Let_def)

lemma sent_broadcast_room:
  "get_prop (rooms s) R = Own room \<Longrightarrow>
   sent (broadcast (mutate_room R f s) (Some R) m x) =
     sent s @ map (\<lambda>u. (u, m)) (filter (\<lambda>u. registered_in s (Some R) u \<and> Some u \<noteq> x) (open_sockets s))"
  by (simp add: sent_broadcast rooms_mutate get_prop_map_entry prop_key_def recipients_eq
      registered_in_def)

lemma find_SomeD: "find P xs = Some x \<Longrightarrow> P x \<and> x \<in> set xs"
  by (induction xs) (auto split: if_splits)

lemma is_open_member: "is_open s w \<Longrightarrow> w \<in> set (open_sockets s)"
  by (auto simp: is_open_def find_socket_def open_sockets_def image_iff
      split: option.splits dest!: find_SomeD)

lemma leave_in_room:
  assumes "session s w = Some info" and "info_roomId info = Some R" and "R \<noteq> []"
    and "get_prop (rooms s) R = Own room"
    and "map_of (players room) (info_playerId info) = Some p"
  shows "leaveRoom s w t =
           Inr (delete_client w
                  (broadcast
                     (broadcast
                        (mutate_room R
                           (\<lambda>r. r\<lparr>players := AList.delete (info_playerId info) (players r),
                                  chatHistory := chatHistory r @ [left_msg info t]\<rparr>) s)
                        (Some R) (PlayerLeft (info_playerId info)) None)
                     (Some R) (Chat (left_msg info t)) None))"
  using assms by (simp add: leaveRoom_def session_def truthy_def prop_key_def Let_def)

lemma leave_no_session: "session s w = None \<Longrightarrow> leaveRoom s w t = Inr (delete_client w s)"
  by (simp add: leaveRoom_def session_def)

lemma session_delete_client [simp]: "session (delete_client u s) w = None"
  by (simp add: session_def delete_client_def ws_key_def delete_conv')

lemma session_simps [simp]:
  "session (mutate_room k f s) w = session s w"
  "session (broadcast s rk m x) w = session s w"
  "session (sendTo s u m) w = session s w"
  "session (set_closed u s) w = session s w"
  "session (wss_clients_delete u s) w = session s w"
  by (simp_all add: session_def)

lemma sent_broadcast2:
  "get_prop (rooms s) R = Own room \<Longrightarrow>
   sent (broadcast (broadcast (mutate_room R f s) (Some R) m1 x1) (Some R) m2 x2) =
     sent s @ fanout s R x1 m1 @ fanout s R x2 m2"
  by (simp add: sent_broadcast rooms_mutate get_prop_map_entry prop_key_def recipients_eq
      registered_in_def fanout_def)

lemma open_sockets_set_closed: "open_sockets (set_closed w s) = filter (\<lambda>u. u \<noteq> w) (open_sockets s)"
proof -
  have "map sock_ws (filter readyOpen (map (\<lambda>c. if sock_ws c = w then c\<lparr>readyOpen := False\<rparr> else c) xs)) =
        filter (\<lambda>u. u \<noteq> w) (map sock_ws (filter readyOpen xs))" for xs
    by (induction xs) auto
  then show ?thesis by (simp add: open_sockets_def set_closed_def)
qed

lemma registered_in_set_closed [simp]: "registered_in (set_closed w s) k u = registered_in s k u"
  by (simp add: registered_in_def)

lemma fanout_set_closed: "fanout (set_closed w s) R None m = fanout s R (Some w) m"
  by (simp add: fanout_def open_sockets_set_closed conj_commute)

lemma open_sockets_wss_clients_delete:
  "open_sockets (wss_clients_delete w s) = filter (\<lambda>u. u \<noteq> w) (open_sockets s)"
proof -
  have "map sock_ws (filter readyOpen (filter (\<lambda>c. sock_ws c \<noteq> w) xs)) =
        filter (\<lambda>u. u \<noteq> w) (map sock_ws (filter readyOpen xs))" for xs
    by (induction xs) auto
  then show ?thesis by (simp add: open_sockets_def wss_clients_delete_def)
qed

lemma registered_in_wss_clients_delete [simp]:
  "registered_in (wss_clients_delete w s) k u = registered_in s k u"
  by (simp add: registered_in_def)

lemma fanout_wss_clients_delete: "fanout (wss_clients_delete w s) R None m = fanout s R (Some w) m"
  by (simp add: fanout_def open_sockets_wss_clients_delete conj_commute)

lemma find_socket_simps [simp]:
  "find_socket (mutate_room k f s) w = find_socket s w"
  "find_socket (broadcast s rk m x) w = find_socket s w"
  "find_socket (sendTo s u m) w = find_socket s w"
  "find_socket (delete_client u s) w = find_socket s w"
  by (simp_all add: find_socket_def)

lemma find_socket_set_closed:
  "find_socket (set_closed w s) w = map_option (\<lambda>c. c\<lparr>readyOpen := False\<rparr>) (find_socket s w)"
proof -
  have "find (\<lambda>c. sock_ws c = w) (map (\<lambda>c. if sock_ws c = w then c\<lparr>readyOpen := False\<rparr> else c) xs) =
        map_option (\<lambda>c. c\<lparr>readyOpen := False\<rparr>) (find (\<lambda>c. sock_ws c = w) xs)" for xs
    by (induction xs) auto
  then show ?thesis by (simp add: find_socket_def set_closed_def)
qed

lemma find_socket_wss_clients_delete [simp]: "find_socket (wss_clients_delete w s) w = None"
proof -
  have "find (\<lambda>c. sock_ws c = w) (filter (\<lambda>c. sock_ws c \<noteq> w) xs) = None" for xs
    by (induction xs) auto
  then show ?thesis by (simp add: find_socket_def wss_clients_delete_def)
qed

lemma inbox_append [simp]: "inbox u (xs @ ys) = inbox u xs @ inbox u ys"
  by (simp add: inbox_def)

lemma inbox_fanout:
  "distinct (open_sockets s) \<Longrightarrow>
   inbox u (fanout s R x m) =
     (if u \<in> set (open_sockets s) \<and> registered_in s (Some R) u \<and> Some u \<noteq> x then [m] else [])"
proof -
  have "distinct xs \<Longrightarrow> map snd (filter (\<lambda>(v, m). v = u) (map (\<lambda>v. (v, m)) (filter P xs))) =
        (if u \<in> set xs \<and> P u then [m] else [])" for xs and P :: "ws \<Rightarrow> bool"
    by (induction xs) auto
  then show "distinct (open_sockets s) \<Longrightarrow> ?thesis"
    by (simp add: inbox_def fanout_def)
qed

lemma distinct_open_sockets:
  "distinct (map sock_ws (wss_clients s)) \<Longrightarrow> distinct (open_sockets s)"
  by (simp add: open_sockets_def distinct_map_filter)

lemma players_after_leave:
  assumes "get_prop (rooms s) R = Own room"
  shows "get_prop (rooms (mutate_room R f s)) R = Own (f room)"
  using assms by (simp add: rooms_mutate get_prop_map_entry)

lemma registered_after_delete [simp]: "registered_in (delete_client w s) k u = False"
  by (simp add: registered_in_def delete_client_def ws_key_def delete_conv')

lemma recipients_after_delete:
  "clients s' = clients (delete_client w s) \<Longrightarrow> recipients s' k x = []"
  by (simp add: recipients_def registered_in_def delete_client_def ws_key_def delete_conv')

lemma sent_broadcast_nobody:
  "clients s' = clients (delete_client w s) \<Longrightarrow> sent (broadcast s' k m x) = sent s'"
  by (simp add: sent_broadcast recipients_after_delete)

lemma duo_reached:
  "run (initial_state seeds0)
     [Connection 1 ''p1'', Connection 2 ''p2'',
      Message 2 (Json (JoinRoom ''room_1'' (Some ''Bob'') (Some ''blue''))) env0] =
   Inr duo"
  by (simp add: duo_def bob_def info_bob_def main_world_def env0_def initial_state_def seed_rooms_eq
      eval_defs Let_def spawn_def)

lemma duo_facts:
  "session duo 2 = Some info_bob" "in_room duo 2 ''p2'' ''room_1''" "is_open duo 2"
  "get_prop (rooms duo) ''room_1'' = Own (main_world [(''p2'', bob)] [joined_msg ''Bob'' 7])"
  "open_sockets duo = [1, 2]" "registered_in duo (Some ''room_1'') u"
  "distinct (map sock_ws (wss_clients duo))"
  by (simp_all add: duo_def session_def in_room_def is_open_def find_socket_def get_prop_def
      open_sockets_def registered_in_def ws_key_def info_bob_def main_world_def)

lemma lobby_facts:
  "session lobby 1 = Some info_ann" "in_room lobby 1 ''p1'' ''room_1''" "is_open lobby 1"
  "get_prop (rooms lobby) ''room_1'' = Own (main_world [(''p1'', ann)] [joined_msg ''Ann'' 7])"
  "open_sockets lobby = [1]" "registered_in lobby (Some ''room_1'') u"
  by (simp_all add: lobby_def session_def in_room_def is_open_def find_socket_def get_prop_def
      open_sockets_def registered_in_def ws_key_def info_ann_def main_world_def)

lemma push_chat_eq:
  "push_chat m h = (if length h < 100 then h @ [m] else tl h @ [m])"
  by (cases h) (auto simp: push_chat_def Let_def)

lemma push_chat_bounded: "length h \<le> 100 \<Longrightarrow> length (push_chat m h) \<le> 100"
  by (auto simp: push_chat_eq)

lemma push_chat_last: "last (push_chat m h) = m"
  by (simp add: push_chat_eq)

lemma push_chat_over: "100 \<le> length h \<Longrightarrow> length (push_chat m h) = length h"
  by (cases h) (auto simp: push_chat_eq)

lemma run_append:
  "run s (xs @ ys) = (case run s xs of Inl err \<Rightarrow> Inl err | Inr s' \<Rightarrow> run s' ys)"
  by (induction xs arbitrary: s) (auto split: sum.splits)

lemma lobby_after_0: "lobby_after 0 = lobby"
  by (simp add: lobby_after_def lobby_def main_world_def info_ann_def)

lemma lobby_chat_step:
  assumes "n < 99"
  shows "fire (lobby_after n) (Message 1 (Json (ChatText (Some ''hi''))) env0) = Inr (lobby_after (Suc n))"
proof -
  have s: "session (lobby_after n) 1 = Some info_ann"
    and r: "get_prop (rooms (lobby_after n)) ''room_1'' =
              Own (main_world [(''p1'', ann)] (joined_msg ''Ann'' 7 # replicate n hi_msg))"
    and f: "find_socket (lobby_after n) 1 = Some \<lparr>sock_ws = 1, readyOpen = True, playerId = ''p1''\<rparr>"
    by (simp_all add: lobby_after_def session_def get_prop_def find_socket_def)
  have R: "info_roomId info_ann = Some ''room_1''" by (simp add: info_ann_def)
  show ?thesis
    using assms
    by (simp add: fire_def f on_message_def chat_in_room [OF s R r] del: One_nat_def)
      (simp add: lobby_after_def broadcast_def mutate_room_def get_prop_def prop_key_def
        recipients_def registered_in_def ws_key_def info_ann_def main_world_def ann_def
        hi_msg_def env0_def String_def push_chat_eq replicate_append_same)
qed

lemma lobby_chats: "n \<le> 99 \<Longrightarrow>
  run lobby (replicate n (Message 1 (Json (ChatText (Some ''hi''))) env0)) = Inr (lobby_after n)"
proof (induction n)
  case 0
  then show ?case by (simp add: lobby_after_0)
next
  case (Suc n)
  let ?ev = "Message 1 (Json (ChatText (Some ''hi''))) env0"
  have "replicate (Suc n) ?ev = replicate n ?ev @ [?ev]"
    by (simp add: replicate_append_same)
  moreover from Suc have "run lobby (replicate n ?ev) = Inr (lobby_after n)" by simp
  moreover from Suc.prems have "fire (lobby_after n) ?ev = Inr (lobby_after (Suc n))"
    by (intro lobby_chat_step) simp
  ultimately show ?case
    by (simp only: run_append run.simps sum.case)
qed

lemma same_pos_pos: "same_pos x y z b \<longleftrightarrow> pos b = (x, y, z)"
  by (auto simp: same_pos_def pos_def)

lemma pos_block [simp]: "pos \<lparr>b_x = x, b_y = y, b_z = z, b_type = t\<rparr> = (x, y, z)"
  by (simp add: pos_def)

lemma place_block_pos:
  "place_block x y z t m =
     (if t \<noteq> ''air''
      then filter (\<lambda>b. pos b \<noteq> (x, y, z)) m @ [\<lparr>b_x = x, b_y = y, b_z = z, b_type = t\<rparr>]
      else filter (\<lambda>b. pos b \<noteq> (x, y, z)) m)"
  by (simp add: place_block_def Let_def same_pos_pos)

lemma at_place_block:
  "filter (\<lambda>b. pos b = c) (place_block x y z t m) =
     (if c = (x, y, z)
      then (if t = ''air'' then [] else [\<lparr>b_x = x, b_y = y, b_z = z, b_type = t\<rparr>])
      else filter (\<lambda>b. pos b = c) m)"
proof -
  have "filter (\<lambda>b. pos b = c) (filter (\<lambda>b. pos b \<noteq> (x, y, z)) m) =
           (if c = (x, y, z) then [] else filter (\<lambda>b. pos b = c) m)"
    by (induction m) auto
  then show ?thesis
    by (simp add: place_block_pos)
qed

lemma distinct_place_block:
  "distinct (map pos m) \<Longrightarrow> distinct (map pos (place_block x y z t m))"
  by (auto simp: place_block_pos distinct_map_filter)

lemma place_all_Cons:
  "place_all (((x, y, z), t) # ops) m = place_all ops (place_block x y z t m)"
  by (simp add: place_all_def)

lemma at_place_all:
  "filter (\<lambda>b. pos b = c) (place_all ops m) =
     (case last_type ops c of
        None \<Rightarrow> filter (\<lambda>b. pos b = c) m
      | Some t \<Rightarrow> if t = ''air'' then []
                  else [\<lparr>b_x = fst c, b_y = fst (snd c), b_z = snd (snd c), b_type = t\<rparr>])"
proof (induction ops arbitrary: m)
  case Nil
  then show ?case by (simp add: place_all_def)
next
  case (Cons a ops)
  obtain x y z t where a: "a = ((x, y, z), t)" by (cases a) auto
  show ?case
    by (auto simp: a place_all_Cons Cons.IH at_place_block split: option.splits)
qed

lemma distinct_place_all:
  "distinct (map pos m) \<Longrightarrow> distinct (map pos (place_all ops m))"
proof (induction ops arbitrary: m)
  case Nil
  then show ?case by (simp add: place_all_def)
next
  case (Cons a ops)
  obtain x y z t where a: "a = ((x, y, z), t)" by (cases a) auto
  from Cons show ?case by (simp add: a place_all_Cons distinct_place_block)
qed

lemma in_concat_map: "x \<in> set xs \<Longrightarrow> y \<in> set (f x) \<Longrightarrow> y \<in> set (concat (map f xs))"
  by auto

lemma default_map_collision:
  "\<not> distinct (map pos (generateDefaultMap (\<lambda>k. 1 / 2)))"
proof
  let ?m = "generateDefaultMap (\<lambda>k. 1 / 2)"
  assume "distinct (map pos ?m)"
  then have inj: "inj_on pos (set ?m)" by (simp add: distinct_map)
  have "mk_block 0 1 0 ''stone'' \<in> set platform_blocks"
    unfolding platform_blocks_def
  proof (rule in_concat_map [of 0])
    show "(0::int) \<in> set [- 4..4]" unfolding set_upto by simp
    show "mk_block 0 1 0 ''stone'' \<in> set (map (\<lambda>z. mk_block 0 1 z ''stone'') [- 4..4])"
      unfolding set_map set_upto by (rule image_eqI [of _ _ 0]) simp_all
  qed
  then have 1: "mk_block 0 1 0 ''stone'' \<in> set ?m"
    by (simp add: generateDefaultMap_def)
  have "mk_block 0 1 0 ''metal'' \<in> set (deco_blocks (\<lambda>k. 1 / 2))"
    unfolding deco_blocks_def set_map
    by (rule image_eqI [of _ _ 0]) (simp_all add: deco_type_def decoTypes_def)
  then have 2: "mk_block 0 1 0 ''metal'' \<in> set ?m"
    by (simp add: generateDefaultMap_def)
  have "pos (mk_block 0 1 0 ''stone'') = pos (mk_block 0 1 0 ''metal'')"
    by (simp add: pos_def mk_block_def)
  from inj this 1 2 have "mk_block 0 1 0 ''stone'' = mk_block 0 1 0 ''metal''"
    by (rule inj_onD)
  then show False by (simp add: mk_block_def)
qed

lemma crossed_reached:
  "run (initial_state seeds0)
     [Connection 1 ''p1'', Connection 2 ''p2'',
      Message 1 (Json (JoinRoom ''room_1'' (Some ''Ann'') (Some ''red''))) env0] =
   Inr crossed"
  by (simp add: crossed_def ann_def main_world_def env0_def initial_state_def seed_rooms_eq
      eval_defs Let_def spawn_def)

lemma variant_registry_separate:
  "w \<noteq> w' \<Longrightarrow> Map_get (register_m cl w' pid) w = Map_get cl w"
  "w \<noteq> w' \<Longrightarrow> Map_get (Map_set w' info cl) w = Map_get cl w"
  "w \<noteq> w' \<Longrightarrow> Map_get (Map_delete w' cl) w = Map_get cl w"
  "Map_get (register_m cl w pid) w = Some \<lparr>info_playerId = pid, info_roomId = None, info_name = ''Player''\<rparr>"
  by (simp_all add: Map_get_def Map_set_def Map_delete_def register_m_def update_conv' delete_conv')

lemma variant_two_connections:
  "Map_get (register_m (register_m cl 1 p1) 2 p2) 1 =
     Some \<lparr>info_playerId = p1, info_roomId = None, info_name = ''Player''\<rparr>"
  by (simp add: Map_get_def Map_set_def register_m_def update_conv')

lemma leave_once:
  assumes "session s w = Some info" and "in_room s w (info_playerId info) R"
    and "get_prop (rooms s) R = Own room" and "distinct (map fst (players room))"
    and "is_open s w" and "distinct (map sock_ws (wss_clients s))"
    and "evs \<in> {[Close w t1], [Close w t1, Error w t2], [Error w t1, Close w t2]}"
  shows "\<exists>s' room'. run s evs = Inr s' \<and> get_prop (rooms s') R = Own room' \<and>
           Suc (length (players room')) = length (players room) \<and>
           (\<forall>u. inbox u (delivered s s') =
                (if u \<in> set (open_sockets s) \<and> registered_in s (Some R) u \<and> u \<noteq> w
                 then [PlayerLeft (info_playerId info), Chat (left_msg info t1)] else []))"
proof -
  let ?pid = "info_playerId info"
  let ?f = "\<lambda>r. r\<lparr>players := AList.delete ?pid (players r),
                  chatHistory := chatHistory r @ [left_msg info t1]\<rparr>"
  let ?left = "\<lambda>s0. delete_client w (broadcast (broadcast (mutate_room R ?f s0)
             (Some R) (PlayerLeft ?pid) None) (Some R) (Chat (left_msg info t1)) None)"
  from assms(1,2) have R: "info_roomId info = Some R" "R \<noteq> []"
    by (simp_all add: in_room_def)
  from assms(2,3) obtain p where p: "map_of (players room) ?pid = Some p"
    by (auto simp: in_room_def)
  from assms(5) obtain c where c: "find_socket s w = Some c" "readyOpen c"
    by (auto simp: is_open_def split: option.splits)
  have len: "Suc (length (players (?f room))) = length (players room)"
    using assms(4) p by (simp add: length_delete_present)
  have d: "distinct (open_sockets s)"
    using assms(6) by (rule distinct_open_sockets)
  have close_first: "leaveRoom (wss_clients_delete w s) w t1 = Inr (?left (wss_clients_delete w s))"
    by (rule leave_in_room) (use assms(1,3) R p in simp_all)
  have error_first: "leaveRoom (set_closed w s) w t1 = Inr (?left (set_closed w s))"
    by (rule leave_in_room) (use assms(1,3) R p in simp_all)
  from assms(7) consider "evs = [Close w t1]" | "evs = [Close w t1, Error w t2]"
    | "evs = [Error w t1, Close w t2]" by auto
  then show ?thesis
  proof cases
    case 1
    show ?thesis
      apply (rule exI [of _ "?left (wss_clients_delete w s)"])
      apply (rule exI [of _ "?f room"])
      using c close_first len assms(3) d
      apply (simp add: 1 fire_def players_after_leave delivered_def sent_broadcast2
          fanout_wss_clients_delete inbox_fanout del: length_map)
      done
  next
    case 2
    show ?thesis
      apply (rule exI [of _ "?left (wss_clients_delete w s)"])
      apply (rule exI [of _ "?f room"])
      using c close_first len assms(3) d
      apply (simp add: 2 fire_def players_after_leave delivered_def sent_broadcast2
          fanout_wss_clients_delete inbox_fanout del: length_map)
      done
  next
    case 3
    show ?thesis
      apply (rule exI [of _ "delete_client w (wss_clients_delete w (?left (set_closed w s)))"])
      apply (rule exI [of _ "?f room"])
      using c error_first len assms(3) d
      apply (simp add: 3 fire_def players_after_leave delivered_def sent_broadcast2
          fanout_set_closed inbox_fanout find_socket_set_closed leave_no_session del: length_map)
      done
  qed
qed

lemma leave_once_duo:
  "session duo 2 = Some info_bob \<and> in_room duo 2 ''p2'' ''room_1'' \<and> is_open duo 2 \<and>
   (\<exists>s' room'. run duo [Close 2 8, Error 2 9] = Inr s' \<and>
      get_prop (rooms s') ''room_1'' = Own room' \<and> length (players room') = 0 \<and>
      inbox 1 (delivered duo s') = [PlayerLeft ''p2'', Chat (left_msg info_bob 8)])"
  using leave_once [of duo 2 info_bob "''room_1''"
      "main_world [(''p2'', bob)] [joined_msg ''Bob'' 7]" "[Close 2 8, Error 2 9]" 8 9]
  by (simp add: duo_facts info_bob_def main_world_def del: run.simps) (auto simp: info_bob_def)

lemma uid_inj: "uid i = uid j \<longleftrightarrow> i = j"
  by (metis length_replicate uid_def)

lemma update_fresh: "k \<notin> fst ` set al \<Longrightarrow> AList.update k v al = al @ [(k, v)]"
  by (induction al) auto

lemma find_snoc:
  "find P (xs @ [x]) = (case find P xs of Some y \<Rightarrow> Some y | None \<Rightarrow> if P x then Some x else None)"
  by (induction xs) auto

lemma crowded_0: "crowded 0 (initial_state e)"
  by (simp add: crowded_def initial_state_def seed_rooms_eq createRoom_def find_socket_def)

lemma crowded_step:
  assumes "crowded n s" and "n < 20"
  shows "\<exists>s'. run s (joiner (Suc n)) = Inr s' \<and> crowded (Suc n) s'"
proof -
  from assms(1) obtain r where r: "map_of (rooms s) ''room_1'' = Some r"
    and ps: "map fst (players r) = map uid [1..<Suc n]" and mx: "maxPlayers r = 20"
    by (auto simp: crowded_def)
  from assms(1) have fs: "\<And>i. find_socket s i =
             (if 1 \<le> i \<and> i \<le> n then Some \<lparr>sock_ws = i, readyOpen = True, playerId = uid i\<rparr>
              else None)"
    by (simp add: crowded_def)
  from assms(1) have cl: "clients s = (if n = 0 then []
                   else [(ws_key n, \<lparr>info_playerId = uid n, info_roomId = Some ''room_1'',
                                     info_name = ''P''\<rparr>)])"
    by (simp add: crowded_def)
  let ?w = "Suc n"
  let ?s1 = "on_connection s ?w (uid ?w)"
  have f1: "fire s (Connection ?w (uid ?w)) = Inr ?s1"
    by (simp add: fire_def fs)
  have rooms1: "rooms ?s1 = rooms s" by simp
  have cl1: "clients ?s1 = [(ws_key ?w, \<lparr>info_playerId = uid ?w, info_roomId = None,
                                         info_name = ''Player''\<rparr>)]"
    by (simp add: on_connection_def Let_def cl ws_key_def)
  have fs1: "find_socket ?s1 i =
             (if 1 \<le> i \<and> i \<le> ?w then Some \<lparr>sock_ws = i, readyOpen = True, playerId = uid i\<rparr>
              else None)" for i
    using fs [of i]
    by (auto simp: on_connection_def Let_def find_socket_def sendTo_def is_open_def find_snoc
        split: option.splits)
  have own: "get_prop (rooms s) ''room_1'' = Own r"
    using r by (simp add: get_prop_Own_iff)
  have len: "length (players r) = n"
    using arg_cong [OF ps, of length] by simp
  have fresh: "uid ?w \<notin> fst ` set (players r)"
  proof -
    have "fst ` set (players r) = set (map fst (players r))" by simp
    also have "\<dots> = uid ` set [1..<Suc n]" unfolding ps by (rule set_map)
    finally show ?thesis by (auto simp: uid_inj)
  qed
  let ?pl = "\<lparr>p_id = uid ?w, p_name = ''P'', p_color = ''c'', p_x = spawn (rnd_spawnX env0), p_y = 2,
             p_z = spawn (rnd_spawnZ env0), p_rotY = 0, p_hp = 100, p_joinedAt = now_joinedAt env0\<rparr>"
  let ?s' = "join_admit ?s1 ?w (uid ?w) ''room_1'' r
               \<lparr>info_playerId = uid ?w, info_roomId = None, info_name = ''Player''\<rparr>
               (Some ''P'') (Some ''c'') env0"
  have f2: "fire ?s1 (Message ?w (Json (JoinRoom ''room_1'' (Some ''P'') (Some ''c''))) env0) = Inr ?s'"
    using assms(2) len mx
    by (simp add: fire_def fs1 on_message_def case_join_room_def own cl1 truthy_def)
  have rooms': "map_of (rooms ?s') ''room_1'' =
                  Some (r\<lparr>players := players r @ [(uid ?w, ?pl)],
                         chatHistory := chatHistory r @ [joined_msg ''P'' (now_ts env0)]\<rparr>)"
    using r fresh
    by (simp add: join_admit_def Let_def truthy_def rooms_mutate map_of_map_entry_eq update_fresh)
  have cl': "clients ?s' = [(ws_key ?w, \<lparr>info_playerId = uid ?w, info_roomId = Some ''room_1'',
                                        info_name = ''P''\<rparr>)]"
    by (simp add: join_admit_def Let_def truthy_def cl1)
  have fs': "find_socket ?s' i = find_socket ?s1 i" for i
    by (simp add: join_admit_def Let_def truthy_def find_socket_def)
  have "crowded (Suc n) ?s'"
    unfolding crowded_def
    using rooms' cl' fs' fs1 ps mx by simp
  moreover have "run s (joiner (Suc n)) = Inr ?s'"
    by (simp add: joiner_def f1 f2 del: One_nat_def)
  ultimately show ?thesis by blast
qed

lemma crowd_reaches: "n \<le> 20 \<Longrightarrow> \<exists>s. run (initial_state e) (crowd n) = Inr s \<and> crowded n s"
proof (induction n)
  case 0
  then show ?case by (simp add: crowd_def crowded_0)
next
  case (Suc n)
  then obtain s where s: "run (initial_state e) (crowd n) = Inr s" "crowded n s" by auto
  from crowded_step [OF s(2)] Suc.prems obtain s' where
    s': "run s (joiner (Suc n)) = Inr s'" "crowded (Suc n) s'" by auto
  have "crowd (Suc n) = crowd n @ joiner (Suc n)"
    by (simp add: crowd_def)
  with s(1) s'(1) have "run (initial_state e) (crowd (Suc n)) = Inr s'"
    by (simp add: run_append)
  with s'(2) show ?case by blast
qed

lemma crowded_full:
  assumes "crowded 20 s"
  shows "\<exists>room. in_room s 20 (uid 20) ''room_1'' \<and> get_prop (rooms s) ''room_1'' = Own room \<and>
           maxPlayers room = 20 \<and> length (players room) = 20 \<and> is_open s 20"
proof -
  from assms obtain r where r: "map_of (rooms s) ''room_1'' = Some r"
    and ps: "map fst (players r) = map uid [1..<Suc 20]" and mx: "maxPlayers r = 20"
    by (auto simp: crowded_def)
  have len: "length (players r) = 20"
    using arg_cong [OF ps, of length] by simp
  have "uid 20 \<in> set (map fst (players r))"
    unfolding ps by simp
  then have mem: "map_of (players r) (uid 20) \<noteq> None"
    by (simp add: map_of_eq_None_iff)
  from assms have "find_socket s 20 = Some \<lparr>sock_ws = 20, readyOpen = True, playerId = uid 20\<rparr>"
    by (simp add: crowded_def)
  then have "is_open s 20" by (simp add: is_open_def)
  moreover have "in_room s 20 (uid 20) ''room_1''"
    using assms r mem by (simp add: in_room_def session_def crowded_def get_prop_def)
  ultimately show ?thesis
    using r mx len by (auto simp: get_prop_Own_iff)
qed

text \<open>
  A run of \<open>place_block\<close> messages from a connection whose session names a room acts on
  the map of that room as \<open>place_all\<close>.
\<close>

lemma place_events_apply:
  assumes "session s w = Some info" and "info_roomId info = Some R"
    and "get_prop (rooms s) R = Own room" and "is_open s w"
  shows "\<exists>s'. run s (place_events w e ops) = Inr s' \<and>
           get_prop (rooms s') R = Own (room\<lparr>mapData := place_all ops (mapData room)\<rparr>)"
  using assms
proof (induction ops arbitrary: s room)
  case Nil
  then show ?case by (simp add: place_events_def place_all_def)
next
  case (Cons a ops)
  obtain x y z t where a: "a = ((x, y, z), t)" by (cases a) auto
  let ?s1 = "broadcast (mutate_room R (\<lambda>r. r\<lparr>mapData := place_block x y z t (mapData r)\<rparr>) s)
               (Some R) (BlockUpdate x y z t) None"
  from Cons.prems(4) obtain c where c: "find_socket s w = Some c" "readyOpen c"
    by (auto simp: is_open_def split: option.splits)
  have step: "fire s (Message w (Json (PlaceBlock x y z t)) e) = Inr ?s1"
    using c by (simp add: fire_def on_message_def place_in_room [OF Cons.prems(1-3)])
  have 1: "session ?s1 w = Some info" using Cons.prems(1) by simp
  have 3: "get_prop (rooms ?s1) R = Own (room\<lparr>mapData := place_block x y z t (mapData room)\<rparr>)"
    using Cons.prems(3) by (simp add: rooms_mutate get_prop_map_entry)
  have 4: "is_open ?s1 w" using Cons.prems(4) by simp
  from Cons.IH [OF 1 Cons.prems(2) 3 4] obtain s' where
    "run ?s1 (place_events w e ops) = Inr s'"
    "get_prop (rooms s') R =
       Own (room\<lparr>mapData := place_all ops (place_block x y z t (mapData room))\<rparr>)"
    by auto
  then show ?case
    using step by (auto simp: a place_events_def place_all_Cons)
qed

text \<open>
  Connections 1 and 2 in \<open>room_1\<close> and a third connection accepted after them: a \<open>move\<close> of
  connection 1 leaves the state as it is.
\<close>

lemma trio_move_dropped:
  "map_sum id
     (\<lambda>s. (map (\<lambda>(k, r). map fst (players r)) (rooms s), open_sockets s, id_trace (sent s),
           fire s (Message 1 (Json (Move 1 2 3 0)) env0) = Inr s))
     (run lobby
        [Connection 2 ''p2'', Message 2 (Json (JoinRoom ''room_1'' (Some ''Bob'') (Some ''blue''))) env0,
         Connection 3 ''p3'']) =
   Inr ([[''p1'', ''p2''], [], [], []], [1, 2, 3],
        [(''room_joined'', ''p1''), (''room_joined'', ''p2'')], True)"
  by (simp add: lobby_def ann_def env0_def eval_defs Let_def spawn_def id_trace_def
      List.map_filter_simps open_sockets_def createRoom_def)

text \<open>
  Where the shared slot names the room of the mover, every socket counts as registered in
  that room, and the \<open>move\<close> goes to every open socket but the mover.
\<close>

lemma move_reaches_every_open_socket:
  assumes "in_room s w pid R" and "is_open s w"
  shows "\<exists>s'. on_message s w pid (Json (Move x y z rotY)) e = Inr s' \<and>
           delivered s s' =
             map (\<lambda>u. (u, PlayerMoved pid x y z rotY)) (filter (\<lambda>u. u \<noteq> w) (open_sockets s))"
proof -
  from assms(1) obtain info where info: "session s w = Some info"
    and R: "info_roomId info = Some R"
    by (auto simp: in_room_def split: option.splits)
  from assms(1) obtain room p where room: "get_prop (rooms s) R = Own room"
    and p: "map_of (players room) pid = Some p"
    by (auto simp: in_room_def split: property.splits)
  have reg: "registered_in s (Some R) u" for u
    using info R by (simp add: registered_in_def session_def ws_key_def)
  show ?thesis
    using room reg
    by (simp add: on_message_def move_in_room [OF info R room p]
        delivered_def sent_broadcast_room fanout_def)
qed

text \<open>
  A payload that does not parse and a message of unknown type leave the state as it is; the
  payload \<open>null\<close> parses, and \<open>msg.type\<close> throws.
\<close>

lemma dropped_silently:
  "on_message s w pid Malformed e = Inr s" "on_message s w pid (Json UnknownType) e = Inr s"
  by (simp_all add: on_message_def)

lemma null_payload_throws: "on_message s w pid JsonNull e = Inl TypeError"
  by (simp add: on_message_def)

text \<open>
  In every state the server reaches, a \<open>move\<close>, \<open>chat\<close>, \<open>place_block\<close> or \<open>save_map\<close> that
  finds a session with \<open>roomId\<close> \<open>null\<close> in the slot leaves the state as it is.
\<close>

lemma null_room_ignored:
  "run (initial_state re) evs = Inr s \<Longrightarrow> session s w = Some info \<Longrightarrow> info_roomId info = None \<Longrightarrow>
   m \<in> {Move x y z rotY, ChatText t, PlaceBlock bx by bz bt, SaveMap mp} \<Longrightarrow>
   on_message s w pid (Json m) e = Inr s"
  by (auto simp: on_message_def dest!: reachable_null_undefined dest: unjoined_noop)
section \<open>Claims\<close>

text \<open>
  C1. The registry should resolve every connection to its own session, so that no two
  connections share a slot. In \<^verbatim>\<open>src/server.js\<close> the registry is a plain object and
  \<open>clients[ws]\<close> uses the same property key for every WebSocket: as soon as a second
  connection is accepted, the first connection's lookup returns the second connection's
  session. (The \<open>Map\<close> of the sibling variant keeps them apart, see
  \<open>variant_registry_separate\<close>.)
\<close>

theorem C1_second_connection_takes_the_slot:
  "session (on_connection (on_connection s w1 p1) w2 p2) w1 =
     Some \<lparr>info_playerId = p2, info_roomId = None, info_name = ''Player''\<rparr>"
  by (simp add: session_def on_connection_def Let_def ws_key_def update_conv')

text \<open>
  C2, as the code has it. A connection that is in room \<open>R\<close> under its own player id, whose
  session carries that id, and that joins \<open>R\<close> again while \<open>R\<close> has a free slot: the
  messages sent are, in this order, \<open>player_left\<close> with the player id to every open
  connection registered in \<open>R\<close> (the requester among them), the system chat line of the
  leave to the same connections, and \<open>room_joined\<close> to the requester with the same player
  id (the id is fixed when the connection is accepted) and a player whose position is the
  spawn computed from the random numbers drawn in this handler.
\<close>

theorem C2_rejoin_keeps_player_id:
  assumes "session s w = Some info" and "info_playerId info = pid" and "in_room s w pid R"
    and "get_prop (rooms s) R = Own room" and "length (players room) < maxPlayers room"
    and "is_open s w"
  shows "\<exists>s' ps md ch pl.
           on_message s w pid (Json (JoinRoom R n c)) e = Inr s' \<and>
           delivered s s' =
             fanout s R None (PlayerLeft pid) @ fanout s R None (Chat (left_msg info (now_left e))) @
             [(w, RoomJoined R (r_name room) pid ps md ch)] \<and>
           (w, PlayerLeft pid) \<in> set (fanout s R None (PlayerLeft pid)) \<and>
           map_of ps pid = Some pl \<and>
           p_x pl = spawn (rnd_spawnX e) \<and> p_y pl = 2 \<and> p_z pl = spawn (rnd_spawnZ e)"
proof -
  let ?f = "\<lambda>r. r\<lparr>players := AList.delete pid (players r),
                  chatHistory := chatHistory r @ [left_msg info (now_left e)]\<rparr>"
  let ?s1 = "delete_client w (broadcast (broadcast (mutate_room R ?f s)
             (Some R) (PlayerLeft pid) None) (Some R) (Chat (left_msg info (now_left e))) None)"
  from assms(1,3) have R: "info_roomId info = Some R" "R \<noteq> []"
    by (simp_all add: in_room_def)
  from assms(3,4) obtain p where p: "map_of (players room) pid = Some p"
    by (auto simp: in_room_def)
  have leave: "leaveRoom s w (now_left e) = Inr ?s1"
    using leave_in_room [OF assms(1) R assms(4), of p "now_left e"] p assms(2) by simp
  have reg: "registered_in s (Some R) w"
    using assms(1) R by (simp add: registered_in_def session_def)
  have mem: "(w, PlayerLeft pid) \<in> set (fanout s R None (PlayerLeft pid))"
    using reg is_open_member [OF assms(6)] by (simp add: fanout_def)
  have join: "on_message s w pid (Json (JoinRoom R n c)) e =
                Inr (join_admit ?s1 w pid R room info n c e)"
    using assms(1,4,5) R leave
    by (simp add: on_message_def case_join_room_def session_def truthy_def)
  have room: "map_of (rooms s) R = Some room"
    using assms(4) by (simp add: get_prop_Own_iff)
  show ?thesis
    unfolding join
    using mem assms(4,6) R room
    by (simp add: join_admit_def Let_def truthy_def delivered_def sent_sendTo sent_broadcast_nobody
        sent_broadcast2 deref_def rooms_mutate map_of_map_entry_eq update_conv')
qed

theorem C2_witness:
  "session lobby 1 = Some info_ann \<and> in_room lobby 1 ''p1'' ''room_1'' \<and> is_open lobby 1 \<and>
   (\<exists>s' ps md ch pl.
      on_message lobby 1 ''p1'' (Json (JoinRoom ''room_1'' (Some ''Ann'') (Some ''red''))) env0 = Inr s' \<and>
      delivered lobby s' =
        [(1, PlayerLeft ''p1''), (1, Chat (left_msg info_ann 5)),
         (1, RoomJoined ''room_1'' ''Main World'' ''p1'' ps md ch)] \<and>
      map_of ps ''p1'' = Some pl \<and> p_x pl = 0 \<and> p_y pl = 2 \<and> p_z pl = - (5 / 2))"
  (is "_ \<and> _ \<and> _ \<and> ?W")
proof -
  have pid: "info_playerId info_ann = ''p1''"
    and name: "r_name (main_world [(''p1'', ann)] [joined_msg ''Ann'' 7]) = ''Main World''"
    and less: "length (players (main_world [(''p1'', ann)] [joined_msg ''Ann'' 7]))
                 < maxPlayers (main_world [(''p1'', ann)] [joined_msg ''Ann'' 7])"
    by (simp_all add: info_ann_def main_world_def createRoom_def)
  have ?W
    using C2_rejoin_keeps_player_id [OF lobby_facts(1) pid lobby_facts(2) lobby_facts(4) less
        lobby_facts(3), of "Some ''Ann''" "Some ''red''" env0]
    by (simp add: lobby_facts(5,6) fanout_def name) (simp add: env0_def spawn_def)
  with lobby_facts(1-3) show ?thesis by simp
qed

text \<open>
  C2 as stated fails: after connecting and joining \<open>room_1\<close>, a second \<open>join_room\<close> for
  \<open>room_1\<close> announces \<open>room_joined\<close> with the player id that \<open>player_left\<close> just carried.
\<close>

theorem C2_counterexample:
  "map_sum id (\<lambda>s'. id_trace (delivered lobby s'))
     (on_message lobby 1 ''p1'' (Json (JoinRoom ''room_1'' (Some ''Ann'') (Some ''red''))) env0) =
   Inr [(''player_left'', ''p1''), (''room_joined'', ''p1'')]"
  by (simp add: lobby_def ann_def env0_def eval_defs Let_def spawn_def delivered_def id_trace_def
      List.map_filter_simps)

text \<open>
  C3. The history should never hold more than 100 entries. Only the \<open>chat\<close> case trims
  after its push (\<open>push_chat\<close>); the system lines pushed by \<open>join_room\<close> and
  \<open>leaveRoom\<close> are not followed by a trim. One connection that joins \<open>room_1\<close>, sends 99
  chat messages and disconnects leaves 101 entries in the history of \<open>room_1\<close>.
\<close>

theorem C3_history_exceeds_bound:
  "map_sum id (\<lambda>s. map (\<lambda>(k, r). length (chatHistory r)) (rooms s))
     (run (initial_state seeds0)
        ([Connection 1 ''p1'', Message 1 (Json (JoinRoom ''room_1'' (Some ''Ann'') (Some ''red''))) env0] @
         replicate 99 (Message 1 (Json (ChatText (Some ''hi''))) env0) @ [Close 1 8])) =
   Inr [101, 0, 0, 0]"
proof -
  have "fire (lobby_after 99) (Close 1 8) = Inr s' \<Longrightarrow>
        map (\<lambda>(k, r). length (chatHistory r)) (rooms s') = [101, 0, 0, 0]" for s'
    by (auto simp: fire_def lobby_after_def find_socket_def leaveRoom_def set_closed_def
        ws_key_def info_ann_def truthy_def get_prop_def prop_key_def main_world_def Let_def
        mutate_room_def createRoom_def)
  moreover have "\<exists>s'. fire (lobby_after 99) (Close 1 8) = Inr s'"
    by (simp add: fire_def lobby_after_def find_socket_def leaveRoom_def set_closed_def
        ws_key_def info_ann_def truthy_def get_prop_def prop_key_def main_world_def Let_def)
  ultimately show ?thesis
    using lobby_reached lobby_chats [of 99]
    by (auto simp: run_append simp del: append.simps replicate.simps)
qed

text \<open>
  C4, as the code has it. For a block map \<open>m\<close> and a sequence of \<open>place_block\<close>
  operations applied to it: a coordinate that the sequence placed holds no entry if the
  last operation there placed \<open>air\<close> and exactly the last block placed there otherwise;
  every other coordinate keeps the entries it had in \<open>m\<close>; and the result has at most one
  entry per coordinate whenever \<open>m\<close> has. (A run of \<open>place_block\<close> messages acts on the map
  of the room as \<open>place_all\<close>: \<open>place_events_apply\<close>.)
\<close>

theorem C4_place_block_sequences:
  "filter (\<lambda>b. pos b = c) (place_all ops m) =
     (case last_type ops c of
        None \<Rightarrow> filter (\<lambda>b. pos b = c) m
      | Some t \<Rightarrow> if t = ''air'' then []
                  else [\<lparr>b_x = fst c, b_y = fst (snd c), b_z = snd (snd c), b_type = t\<rparr>]) \<and>
   (distinct (map pos m) \<longrightarrow> distinct (map pos (place_all ops m)))"
  by (simp add: at_place_all distinct_place_all)

theorem C4_witness:
  "distinct (map pos [stone5]) \<and>
   place_all [((5, 1, 5), ''stone''), ((5, 1, 5), ''air''), ((0, 0, 0), ''sand'')] [stone5] =
     [\<lparr>b_x = 0, b_y = 0, b_z = 0, b_type = ''sand''\<rparr>] \<and>
   distinct (map pos (place_all [((5, 1, 5), ''stone''), ((5, 1, 5), ''air''), ((0, 0, 0), ''sand'')] [stone5])) \<and>
   filter (\<lambda>b. pos b = (5, 1, 5))
     (place_all [((5, 1, 5), ''stone''), ((5, 1, 5), ''air''), ((0, 0, 0), ''sand'')] [stone5]) = []"
  using C4_place_block_sequences [of "(5, 1, 5)"
      "[((5, 1, 5), ''stone''), ((5, 1, 5), ''air''), ((0, 0, 0), ''sand'')]" "[stone5]"]
  by (simp add: place_all_def place_block_def same_pos_def pos_def stone5_def)

text \<open>
  C4 as stated fails across a \<open>save_map\<close>: the supplied list replaces the map unchecked,
  so after \<open>place_block(5,1,5,air)\<close>, a \<open>save_map\<close> with two blocks at \<open>(5,1,5)\<close> and a
  \<open>place_block\<close> elsewhere, the map holds two entries at the coordinate whose last
  \<open>place_block\<close> set \<open>air\<close>. (The generated initial map can hold two blocks at one
  coordinate as well, see \<open>default_map_collision\<close>.)
\<close>

theorem C4_counterexample:
  "map_sum id (\<lambda>s. map_option mapData (map_of (rooms s) ''room_1''))
     (run lobby [Message 1 (Json (PlaceBlock 5 1 5 ''air'')) env0,
                 Message 1 (Json (SaveMap [stone5, stone5])) env0,
                 Message 1 (Json (PlaceBlock 0 0 0 ''air'')) env0]) =
   Inr (Some [stone5, stone5])"
  by (simp add: lobby_def eval_defs Let_def place_block_def same_pos_def stone5_def)

text \<open>
  C5. In every state the server reaches from its initial state, every room holds at most
  \<open>maxPlayers\<close> players; and a \<open>join_room\<close> for a room at capacity changes nothing but
  the list of sent messages, to which it appends the reply \<open>Room is full\<close> for the
  requester.
\<close>

theorem C5_capacity_never_exceeded:
  "(run (initial_state re) evs = Inr s \<longrightarrow>
      list_all (\<lambda>(k, r). length (players r) \<le> maxPlayers r) (rooms s)) \<and>
   (get_prop (rooms t) R = Own room \<and> maxPlayers room \<le> length (players room) \<and> is_open t w \<longrightarrow>
      on_message t w pid (Json (JoinRoom R n c)) e =
        Inr (t\<lparr>sent := sent t @ [(w, ErrorReply ''Room is full'')]\<rparr>))"
proof (intro conjI impI)
  assume "run (initial_state re) evs = Inr s"
  with initial_capacity have "capacity_ok s" by (rule run_capacity)
  then show "list_all (\<lambda>(k, r). length (players r) \<le> maxPlayers r) (rooms s)"
    by (auto simp: capacity_ok_def room_ok_def list_all_iff)
next
  assume "get_prop (rooms t) R = Own room \<and> maxPlayers room \<le> length (players room) \<and> is_open t w"
  then show "on_message t w pid (Json (JoinRoom R n c)) e =
        Inr (t\<lparr>sent := sent t @ [(w, ErrorReply ''Room is full'')]\<rparr>)"
    by (simp add: on_message_def join_full sendTo_def)
qed

theorem C5_witness:
  "run (initial_state seeds0)
     [Connection 1 ''p1'', Message 1 (Json (JoinRoom ''room_1'' (Some ''Ann'') (Some ''red''))) env0] =
     Inr lobby \<and>
   map (\<lambda>(k, r). (length (players r), maxPlayers r)) (rooms lobby) = [(1, 20), (0, 20), (0, 20), (0, 20)] \<and>
   (\<exists>s room. run (initial_state seeds0) (crowd 20 @ [Connection 21 (uid 21)]) = Inr s \<and>
      get_prop (rooms s) ''room_1'' = Own room \<and> length (players room) = 20 \<and>
      maxPlayers room = 20 \<and> is_open s 21 \<and>
      list_all (\<lambda>(k, r). length (players r) \<le> maxPlayers r) (rooms s) \<and>
      on_message s 21 (uid 21) (Json (JoinRoom ''room_1'' (Some ''Bob'') None)) env0 =
        Inr (s\<lparr>sent := sent s @ [(21, ErrorReply ''Room is full'')]\<rparr>))"
proof (intro conjI)
  show "run (initial_state seeds0)
     [Connection 1 ''p1'', Message 1 (Json (JoinRoom ''room_1'' (Some ''Ann'') (Some ''red''))) env0] =
     Inr lobby" by (rule lobby_reached)
  with C5_capacity_never_exceeded [of seeds0 _ lobby]
  show "map (\<lambda>(k, r). (length (players r), maxPlayers r)) (rooms lobby) = [(1, 20), (0, 20), (0, 20), (0, 20)]"
    by (simp add: lobby_def createRoom_def)
  obtain s0 where s0: "run (initial_state seeds0) (crowd 20) = Inr s0" "crowded 20 s0"
    using crowd_reaches [of 20 seeds0] by auto
  from crowded_full [OF s0(2)] obtain room where room:
    "get_prop (rooms s0) ''room_1'' = Own room"
    and eq: "length (players room) = 20" "maxPlayers room = 20" by blast
  let ?s = "on_connection s0 21 (uid 21)"
  from s0(2) have "find_socket s0 21 = None" by (simp add: crowded_def)
  then have f: "fire s0 (Connection 21 (uid 21)) = Inr ?s" by (simp add: fire_def)
  have run: "run (initial_state seeds0) (crowd 20 @ [Connection 21 (uid 21)]) = Inr ?s"
    using s0(1) f by (simp add: run_append)
  have opn: "is_open ?s 21"
    using \<open>find_socket s0 21 = None\<close>
    by (simp add: on_connection_def Let_def is_open_def find_socket_def sendTo_def find_snoc)
  have own: "get_prop (rooms ?s) ''room_1'' = Own room" using room(1) by simp
  from C5_capacity_never_exceeded [of seeds0 "crowd 20 @ [Connection 21 (uid 21)]" ?s ?s
      "''room_1''" room 21 "uid 21" "Some ''Bob''" None env0] run own eq opn
  show "\<exists>s room. run (initial_state seeds0) (crowd 20 @ [Connection 21 (uid 21)]) = Inr s \<and>
      get_prop (rooms s) ''room_1'' = Own room \<and> length (players room) = 20 \<and>
      maxPlayers room = 20 \<and> is_open s 21 \<and>
      list_all (\<lambda>(k, r). length (players r) \<le> maxPlayers r) (rooms s) \<and>
      on_message s 21 (uid 21) (Json (JoinRoom ''room_1'' (Some ''Bob'') None)) env0 =
        Inr (s\<lparr>sent := sent s @ [(21, ErrorReply ''Room is full'')]\<rparr>)"
    by (intro exI [of _ ?s] exI [of _ room]) simp
qed

text \<open>
  C6. A \<open>move\<close> of a connection that is in a room should reach the other open connections
  of that room and nobody else. \<open>broadcast\<close> selects the recipients by
  \<open>clients[ws].roomId\<close>, and \<open>clients[ws]\<close> is the one slot that all connections share
  (C1): the room of every socket is the room of the session registered last. After
  connections 1 and 2 joined \<open>room_1\<close> and connection 3 was accepted, the slot holds the
  fresh session of connection 3, and a \<open>move\<close> of connection 1 is dropped: connection 2,
  in the same room, receives nothing. After connection 1 was accepted and connection 2
  was accepted and joined \<open>room_1\<close>, a \<open>move\<close> of connection 2 is delivered to connection
  1, which never joined a room. (Where the slot names the mover's room, the \<open>move\<close> goes
  to every open socket but the mover: \<open>move_reaches_every_open_socket\<close>.)
\<close>

theorem C6_move_ignores_room_membership:
  "map_sum id
     (\<lambda>s. (map (\<lambda>(k, r). map fst (players r)) (rooms s), open_sockets s, id_trace (sent s),
           fire s (Message 1 (Json (Move 1 2 3 0)) env0) = Inr s))
     (run (initial_state seeds0)
        [Connection 1 ''p1'', Message 1 (Json (JoinRoom ''room_1'' (Some ''Ann'') (Some ''red''))) env0,
         Connection 2 ''p2'', Message 2 (Json (JoinRoom ''room_1'' (Some ''Bob'') (Some ''blue''))) env0,
         Connection 3 ''p3'']) =
   Inr ([[''p1'', ''p2''], [], [], []], [1, 2, 3],
        [(''room_joined'', ''p1''), (''room_joined'', ''p2'')], True) \<and>
   run (initial_state seeds0)
     [Connection 1 ''p1'', Connection 2 ''p2'',
      Message 2 (Json (JoinRoom ''room_1'' (Some ''Bob'') (Some ''blue''))) env0] = Inr duo \<and>
   map_sum id (delivered duo) (fire duo (Message 2 (Json (Move 1 2 3 0)) env0)) =
     Inr [(1, PlayerMoved ''p2'' 1 2 3 0)]"
proof (intro conjI)
  have "run (initial_state seeds0)
          ([Connection 1 ''p1'',
            Message 1 (Json (JoinRoom ''room_1'' (Some ''Ann'') (Some ''red''))) env0] @
           [Connection 2 ''p2'',
            Message 2 (Json (JoinRoom ''room_1'' (Some ''Bob'') (Some ''blue''))) env0,
            Connection 3 ''p3'']) =
        run lobby
          [Connection 2 ''p2'',
           Message 2 (Json (JoinRoom ''room_1'' (Some ''Bob'') (Some ''blue''))) env0,
           Connection 3 ''p3'']"
    using lobby_reached by (simp only: run_append sum.case)
  then show "map_sum id
     (\<lambda>s. (map (\<lambda>(k, r). map fst (players r)) (rooms s), open_sockets s, id_trace (sent s),
           fire s (Message 1 (Json (Move 1 2 3 0)) env0) = Inr s))
     (run (initial_state seeds0)
        [Connection 1 ''p1'', Message 1 (Json (JoinRoom ''room_1'' (Some ''Ann'') (Some ''red''))) env0,
         Connection 2 ''p2'', Message 2 (Json (JoinRoom ''room_1'' (Some ''Bob'') (Some ''blue''))) env0,
         Connection 3 ''p3'']) =
   Inr ([[''p1'', ''p2''], [], [], []], [1, 2, 3],
        [(''room_joined'', ''p1''), (''room_joined'', ''p2'')], True)"
    using trio_move_dropped by simp
  show "run (initial_state seeds0)
     [Connection 1 ''p1'', Connection 2 ''p2'',
      Message 2 (Json (JoinRoom ''room_1'' (Some ''Bob'') (Some ''blue''))) env0] = Inr duo"
    by (rule duo_reached)
  show "map_sum id (delivered duo) (fire duo (Message 2 (Json (Move 1 2 3 0)) env0)) =
     Inr [(1, PlayerMoved ''p2'' 1 2 3 0)]"
    by (simp add: duo_def bob_def info_bob_def main_world_def eval_defs Let_def delivered_def)
qed

text \<open>
  C7. A disconnect of a connection that is in a room should remove one player and
  announce it once. \<open>leaveRoom\<close> removes the player stored under the player id of the
  session that \<open>clients[ws]\<close> resolves to, and that session is the one of the connection
  accepted last: after connection 1, connection 2 and a \<open>join_room\<close> of connection 1, the
  close of connection 1 leaves its player in the room and sends nothing. (Where the session
  carries the id of a player of the room, the disconnect does what the claim says, whether
  \<open>close\<close>, \<open>error\<close> or both fire: \<open>leave_once\<close>.)
\<close>

theorem C7_disconnect_leaves_ghost:
  "run (initial_state seeds0)
     [Connection 1 ''p1'', Connection 2 ''p2'',
      Message 1 (Json (JoinRoom ''room_1'' (Some ''Ann'') (Some ''red''))) env0] = Inr crossed \<and>
   in_room crossed 1 ''p1'' ''room_1'' \<and>
   map_sum id (\<lambda>s'. (map (\<lambda>(k, r). map fst (players r)) (rooms s'), delivered crossed s'))
     (fire crossed (Close 1 8)) =
   Inr ([[''p1''], [], [], []], [])"
proof (intro conjI)
  show "run (initial_state seeds0)
     [Connection 1 ''p1'', Connection 2 ''p2'',
      Message 1 (Json (JoinRoom ''room_1'' (Some ''Ann'') (Some ''red''))) env0] = Inr crossed"
    by (rule crossed_reached)
  show "in_room crossed 1 ''p1'' ''room_1''"
    by (simp add: crossed_def in_room_def session_def get_prop_def main_world_def ws_key_def)
  show "map_sum id (\<lambda>s'. (map (\<lambda>(k, r). map fst (players r)) (rooms s'), delivered crossed s'))
          (fire crossed (Close 1 8)) = Inr ([[''p1''], [], [], []], [])"
    by (simp add: crossed_def eval_defs Let_def delivered_def main_world_def)
qed

text \<open>
  C8. A \<open>join_room\<close> for a room that does not exist should get the reply
  \<open>Room not found\<close>. \<open>rooms\<close> is a plain object, so \<open>rooms[msg.roomId]\<close> finds the
  properties of \<open>Object.prototype\<close> too: for the room id \<open>constructor\<close> the value is
  truthy, \<open>room.players\<close> is \<open>undefined\<close> and \<open>Object.keys\<close> throws. (For every other
  missing room id the reply is sent and nothing else changes: \<open>join_not_found\<close>.)
\<close>

theorem C8_inherited_room_id_throws:
  "run (initial_state re) [Connection w pid, Message w (Json (JoinRoom ''constructor'' n c)) e] =
     Inl TypeError"
  by (simp add: fire_def find_socket_def initial_state_def on_connection_def sendTo_def is_open_def
      on_message_def join_inherited get_prop_def seed_rooms_eq Object_prototype_def Let_def)

text \<open>
  C9. A \<open>move\<close>, \<open>chat\<close>, \<open>place_block\<close> or \<open>save_map\<close> of a connection that joined no
  room should be ignored without a reply and without a change of state. The handler
  reads \<open>info.roomId\<close> of the session in the slot that all connections share (C1). After
  connections 1 and 2 were accepted and connection 2 closed, \<open>leaveRoom\<close> has deleted the
  slot: for a message of connection 1 \<open>info\<close> is \<open>undefined\<close> and \<open>info.roomId\<close> throws.
  After connection 2 joined \<open>room_1\<close> instead, a \<open>chat\<close> of connection 1, which joined no
  room, is stored in the history of \<open>room_1\<close> and sent to both connections under the name
  of connection 2. (A payload that does not parse and a message of unknown type are
  dropped, \<open>dropped_silently\<close>; the payload \<open>null\<close> throws, \<open>null_payload_throws\<close>; with a
  session of \<open>roomId\<close> \<open>null\<close> in the slot the four messages are ignored,
  \<open>null_room_ignored\<close>.)
\<close>

theorem C9_unjoined_message_throws_or_runs:
  "map (\<lambda>m. run (initial_state re)
              [Connection 1 p1, Connection 2 p2, Close 2 now, Message 1 (Json m) e])
     [Move x y z rotY, ChatText t, PlaceBlock bx by bz bt, SaveMap mp] =
   [Inl TypeError, Inl TypeError, Inl TypeError, Inl TypeError] \<and>
   run (initial_state seeds0)
     [Connection 1 ''p1'', Connection 2 ''p2'',
      Message 2 (Json (JoinRoom ''room_1'' (Some ''Bob'') (Some ''blue''))) env0] = Inr duo \<and>
   map_sum id (\<lambda>s'. (delivered duo s', map (\<lambda>(k, r). chatHistory r) (rooms s')))
     (fire duo (Message 1 (Json (ChatText (Some ''hi''))) env0)) =
   Inr ([(1, Chat \<lparr>m_sender = ''Bob'', m_color = ''#fff'', m_text = ''hi'', m_ts = 7\<rparr>),
         (2, Chat \<lparr>m_sender = ''Bob'', m_color = ''#fff'', m_text = ''hi'', m_ts = 7\<rparr>)],
        [[joined_msg ''Bob'' 7,
          \<lparr>m_sender = ''Bob'', m_color = ''#fff'', m_text = ''hi'', m_ts = 7\<rparr>], [], [], []])"
proof (intro conjI)
  show "map (\<lambda>m. run (initial_state re)
              [Connection 1 p1, Connection 2 p2, Close 2 now, Message 1 (Json m) e])
     [Move x y z rotY, ChatText t, PlaceBlock bx by bz bt, SaveMap mp] =
   [Inl TypeError, Inl TypeError, Inl TypeError, Inl TypeError]"
    by (simp add: initial_state_def seed_rooms_eq eval_defs Let_def)
  show "run (initial_state seeds0)
     [Connection 1 ''p1'', Connection 2 ''p2'',
      Message 2 (Json (JoinRoom ''room_1'' (Some ''Bob'') (Some ''blue''))) env0] = Inr duo"
    by (rule duo_reached)
  show "map_sum id (\<lambda>s'. (delivered duo s', map (\<lambda>(k, r). chatHistory r) (rooms s')))
     (fire duo (Message 1 (Json (ChatText (Some ''hi''))) env0)) =
   Inr ([(1, Chat \<lparr>m_sender = ''Bob'', m_color = ''#fff'', m_text = ''hi'', m_ts = 7\<rparr>),
         (2, Chat \<lparr>m_sender = ''Bob'', m_color = ''#fff'', m_text = ''hi'', m_ts = 7\<rparr>)],
        [[joined_msg ''Bob'' 7,
          \<lparr>m_sender = ''Bob'', m_color = ''#fff'', m_text = ''hi'', m_ts = 7\<rparr>], [], [], []])"
    by (simp add: duo_def bob_def info_bob_def main_world_def eval_defs Let_def delivered_def
        env0_def createRoom_def String_def)
qed

text \<open>
  C10. A connection that is in room \<open>R\<close> and asks to join \<open>R\<close> while \<open>R\<close> is at full
  capacity gets the reply \<open>Room is full\<close> and stays joined in \<open>R\<close>: the capacity check
  comes before the implicit leave, so the requester's own slot counts against it.
\<close>

theorem C10_full_room_rejects_own_rejoin:
  assumes "in_room s w pid R"
    and "get_prop (rooms s) R = Own room"
    and "maxPlayers room \<le> length (players room)"
    and "is_open s w"
  shows "on_message s w pid (Json (JoinRoom R n c)) e =
           Inr (s\<lparr>sent := sent s @ [(w, ErrorReply ''Room is full'')]\<rparr>) \<and>
         in_room (s\<lparr>sent := sent s @ [(w, ErrorReply ''Room is full'')]\<rparr>) w pid R"
  using assms by (simp add: on_message_def join_full sendTo_def)

theorem C10_witness:
  "\<exists>s room. run (initial_state seeds0) (crowd 20) = Inr s \<and>
      in_room s 20 (uid 20) ''room_1'' \<and> get_prop (rooms s) ''room_1'' = Own room \<and>
      maxPlayers room \<le> length (players room) \<and> is_open s 20 \<and>
      on_message s 20 (uid 20) (Json (JoinRoom ''room_1'' None None)) env0 =
        Inr (s\<lparr>sent := sent s @ [(20, ErrorReply ''Room is full'')]\<rparr>) \<and>
      in_room (s\<lparr>sent := sent s @ [(20, ErrorReply ''Room is full'')]\<rparr>) 20 (uid 20) ''room_1''"
proof -
  obtain s where s: "run (initial_state seeds0) (crowd 20) = Inr s" "crowded 20 s"
    using crowd_reaches [of 20 seeds0] by auto
  from crowded_full [OF s(2)] obtain room where room: "in_room s 20 (uid 20) ''room_1''"
    "get_prop (rooms s) ''room_1'' = Own room" "maxPlayers room \<le> length (players room)"
    "is_open s 20" by auto
  from C10_full_room_rejects_own_rejoin [OF room, of None None env0] s(1) room
  show ?thesis by blast
qed

end
